theory Spec2Isabelle
  imports Main "HOL-Library.Sublist"
begin

section \<open>Python strings\<close>

text \<open>
  A Python \<open>str\<close> is a sequence of Unicode code points, so \<open>len\<close> and slicing count
  code points. It is modelled as a list of natural numbers; \<open>lit\<close> reads an ASCII
  literal of the source.
\<close>

type_synonym pystr = "nat list"

definition lit :: "string \<Rightarrow> pystr" where
  "lit s = map of_char s"

text \<open>\<open>str.replace(old, new)\<close>: all non-overlapping occurrences, leftmost first.\<close>

fun replace_scan :: "pystr \<Rightarrow> pystr \<Rightarrow> pystr \<Rightarrow> pystr" where
  "replace_scan old new [] = []"
| "replace_scan old new (c # cs) =
     (if old \<noteq> [] \<and> prefix old (c # cs)
      then new @ replace_scan old new (drop (length old - 1) cs)
      else c # replace_scan old new cs)"

definition py_replace :: "pystr \<Rightarrow> pystr \<Rightarrow> pystr \<Rightarrow> pystr" where
  \<comment> \<open>\<open>s.replace(old, new)\<close>; an empty \<open>old\<close> matches before every character and at the end\<close>
  "py_replace s old new =
     (if old = [] then new @ concat (map (\<lambda>c. c # new) s) else replace_scan old new s)"

text \<open>\<open>sub in s\<close> for strings.\<close>

fun py_contains :: "pystr \<Rightarrow> pystr \<Rightarrow> bool" where
  "py_contains sub [] = (sub = [])"
| "py_contains sub (c # cs) = (prefix sub (c # cs) \<or> py_contains sub cs)"

definition py_isspace :: "nat \<Rightarrow> bool" where
  \<comment> \<open>the code points \<open>str.isspace\<close> accepts, which \<open>str.strip()\<close> removes\<close>
  "py_isspace c =
     ((9 \<le> c \<and> c \<le> 13) \<or> (28 \<le> c \<and> c \<le> 32) \<or> c = 133 \<or> c = 160 \<or> c = 5760
      \<or> (8192 \<le> c \<and> c \<le> 8202) \<or> c = 8232 \<or> c = 8233 \<or> c = 8239 \<or> c = 8287
      \<or> c = 12288)"

definition py_strip :: "pystr \<Rightarrow> pystr" where
  "py_strip s = rev (dropWhile py_isspace (rev (dropWhile py_isspace s)))"

definition lstrip_slash :: "pystr \<Rightarrow> pystr" where
  \<comment> \<open>\<open>s.lstrip('/')\<close>\<close>
  "lstrip_slash s = dropWhile (\<lambda>c. c = 47) s"

definition re_match_http :: "pystr \<Rightarrow> bool" where
  \<comment> \<open>\<open>re.match(r"^https?://", s)\<close> is not \<open>None\<close>\<close>
  "re_match_http s = (prefix (lit ''http://'') s \<or> prefix (lit ''https://'') s)"

text \<open>Decimal text of an integer (\<open>str(n)\<close>), and zero padding as in \<open>%02d\<close>.\<close>

fun nat_digits :: "nat \<Rightarrow> pystr" where
  "nat_digits n = (if n < 10 then [48 + n] else nat_digits (n div 10) @ [48 + n mod 10])"

declare nat_digits.simps [simp del]

definition str_int :: "int \<Rightarrow> pystr" where
  "str_int i = (if i < 0 then 45 # nat_digits (nat (- i)) else nat_digits (nat i))"

definition zero_pad :: "nat \<Rightarrow> int \<Rightarrow> pystr" where
  \<comment> \<open>\<open>"%0wd" % i\<close> for \<open>i \<ge> 0\<close>\<close>
  "zero_pad w i = (let d = str_int i in replicate (w - length d) 48 @ d)"

text \<open>
  \<open>str.split(sep)\<close> for a one-character separator, and \<open>int(s)\<close> on the text of a
  field: surrounding whitespace, an optional sign, then decimal digits, with single
  underscores allowed between digits. The whitespace \<open>int\<close> skips is that of
  \<open>str.strip\<close> without the four separators U+001C to U+001F. (Python also accepts the
  decimal digits of other scripts; those raise here.)
\<close>

fun split_on :: "nat \<Rightarrow> pystr \<Rightarrow> pystr list" where
  "split_on sep [] = [[]]"
| "split_on sep (c # cs) =
     (case split_on sep cs of
        [] \<Rightarrow> [[c]]
      | f # fs \<Rightarrow> if c = sep then [] # f # fs else (c # f) # fs)"

definition is_digit :: "nat \<Rightarrow> bool" where
  "is_digit c = (48 \<le> c \<and> c \<le> 57)"

definition digits_value :: "pystr \<Rightarrow> nat" where
  "digits_value ds = foldl (\<lambda>acc c. acc * 10 + (c - 48)) 0 ds"

datatype error =
    KeyError pystr
  | FileNotFoundError pystr
  | PermissionError pystr
  | HTTPError
  | JSONDecodeError
  | ValueError
  | IndexError
  | OverflowError
  | UnknownTimeZone pystr
  | AttributeError
  | UnicodeEncodeError

definition int_isspace :: "nat \<Rightarrow> bool" where
  "int_isspace c = (py_isspace c \<and> \<not> (28 \<le> c \<and> c \<le> 31))"

definition int_strip :: "pystr \<Rightarrow> pystr" where
  "int_strip s = rev (dropWhile int_isspace (rev (dropWhile int_isspace s)))"

fun underscores_apart :: "pystr \<Rightarrow> bool" where
  "underscores_apart (c # d # cs) = (\<not> (c = 95 \<and> d = 95) \<and> underscores_apart (d # cs))"
| "underscores_apart cs = True"

definition int_digits :: "pystr \<Rightarrow> bool" where
  \<comment> \<open>digits, any two of them separated by at most one underscore\<close>
  "int_digits ds =
     (ds \<noteq> [] \<and> is_digit (hd ds) \<and> is_digit (last ds)
      \<and> list_all (\<lambda>c. is_digit c \<or> c = 95) ds \<and> underscores_apart ds)"

definition py_int :: "pystr \<Rightarrow> error + int" where
  "py_int s =
     (let t = int_strip s;
          neg = (t \<noteq> [] \<and> hd t = 45);
          ds = (if t \<noteq> [] \<and> (hd t = 45 \<or> hd t = 43) then tl t else t);
          v = digits_value (filter (\<lambda>c. c \<noteq> 95) ds)
      in if int_digits ds then Inr (if neg then - int v else int v)
         else Inl ValueError)"

section \<open>Configuration\<close>

record Config =
  buttondown_api_key :: pystr
  newsletter_id :: "pystr option"
  send_time :: pystr
  timezone :: pystr
  utm_source :: pystr
  utm_medium :: pystr
  utm_campaign :: pystr
  tip_link :: pystr
  reports_csv :: pystr
  site_url :: pystr

text \<open>A content item (\<open>Dict[str, str]\<close>) and a parsed JSON object with string values.\<close>

type_synonym item = "pystr \<rightharpoonup> pystr"

definition dict_get :: "item \<Rightarrow> pystr \<Rightarrow> pystr \<Rightarrow> pystr" where
  \<comment> \<open>\<open>d.get(k, default)\<close>\<close>
  "dict_get d k dflt = (case d k of None \<Rightarrow> dflt | Some v \<Rightarrow> v)"

definition dict_item :: "item \<Rightarrow> pystr \<Rightarrow> error + pystr" where
  \<comment> \<open>\<open>d[k]\<close>\<close>
  "dict_item d k = (case d k of None \<Rightarrow> Inl (KeyError k) | Some v \<Rightarrow> Inr v)"

definition Config_of_data :: "item \<Rightarrow> error + Config" where
  \<comment> \<open>the \<open>Config(...)\<close> call of \<open>Config.load\<close>, on the parsed file\<close>
  "Config_of_data data =
     (case dict_item data (lit ''buttondown_api_key'') of
        Inl e \<Rightarrow> Inl e
      | Inr key \<Rightarrow>
          Inr \<lparr> buttondown_api_key = key,
                newsletter_id = data (lit ''newsletter_id''),
                send_time = dict_get data (lit ''send_time'') (lit ''08:00''),
                timezone = dict_get data (lit ''timezone'') (lit ''Europe/Paris''),
                utm_source = dict_get data (lit ''utm_source'') (lit ''lueurquotidienne''),
                utm_medium = dict_get data (lit ''utm_medium'') (lit ''email''),
                utm_campaign = dict_get data (lit ''utm_campaign'') (lit ''daily_quote''),
                tip_link = dict_get data (lit ''tip_link'') [],
                reports_csv = dict_get data (lit ''reports_csv'') (lit ''analytics_report.csv''),
                site_url =
                  dict_get data (lit ''site_url'') (lit ''https://lueur-quotidienne.netlify.app'') \<rparr>)"

section \<open>Link instrumentation\<close>

definition append_utm :: "pystr \<Rightarrow> Config \<Rightarrow> pystr" where
  "append_utm url config =
     (let delimiter = (if py_contains (lit ''?'') url then lit ''&'' else lit ''?'');
          utm_params =
            lit ''utm_source='' @ utm_source config
            @ lit ''&utm_medium='' @ utm_medium config
            @ lit ''&utm_campaign='' @ utm_campaign config
      in url @ delimiter @ utm_params)"

section \<open>Dates and times\<close>

text \<open>
  A \<open>datetime\<close> by its fields. The zone attached to an aware value is kept beside it
  as the function giving the UTC offset, in seconds, of a wall-clock reading.
\<close>

record datetime =
  year :: int
  month :: int
  day :: int
  hour :: int
  minute :: int
  second :: int
  microsecond :: int

type_synonym tzinfo = "datetime \<Rightarrow> int"

definition is_leap :: "int \<Rightarrow> bool" where
  "is_leap y = (y mod 4 = 0 \<and> (y mod 100 \<noteq> 0 \<or> y mod 400 = 0))"

definition days_in_month :: "int \<Rightarrow> int \<Rightarrow> int" where
  "days_in_month y m =
     (if m = 2 then (if is_leap y then 29 else 28)
      else if m = 4 \<or> m = 6 \<or> m = 9 \<or> m = 11 then 30 else 31)"

definition days_before_year :: "int \<Rightarrow> int" where
  "days_before_year y = (let p = y - 1 in p * 365 + p div 4 - p div 100 + p div 400)"

definition days_before_month :: "int \<Rightarrow> int \<Rightarrow> int" where
  "days_before_month y m = sum_list (map (days_in_month y) [1..m - 1])"

definition ymd2ord :: "int \<Rightarrow> int \<Rightarrow> int \<Rightarrow> int" where
  \<comment> \<open>the proleptic Gregorian ordinal; 0001-01-01 is day 1\<close>
  "ymd2ord y m d = days_before_year y + days_before_month y m + d"

definition toordinal :: "datetime \<Rightarrow> int" where
  "toordinal t = ymd2ord (year t) (month t) (day t)"

definition valid_datetime :: "datetime \<Rightarrow> bool" where
  "valid_datetime t =
     (1 \<le> year t \<and> year t \<le> 9999 \<and> 1 \<le> month t \<and> month t \<le> 12
      \<and> 1 \<le> day t \<and> day t \<le> days_in_month (year t) (month t)
      \<and> 0 \<le> hour t \<and> hour t \<le> 23 \<and> 0 \<le> minute t \<and> minute t \<le> 59
      \<and> 0 \<le> second t \<and> second t \<le> 59
      \<and> 0 \<le> microsecond t \<and> microsecond t \<le> 999999)"

definition next_day :: "datetime \<Rightarrow> error + datetime" where
  \<comment> \<open>\<open>t + timedelta(days=1)\<close>: the wall clock is kept, the date moves on\<close>
  "next_day t =
     (if day t < days_in_month (year t) (month t) then Inr (t\<lparr>day := day t + 1\<rparr>)
      else if month t < 12 then Inr (t\<lparr>month := month t + 1, day := 1\<rparr>)
      else if year t < 9999 then Inr (t\<lparr>year := year t + 1, month := 1, day := 1\<rparr>)
      else Inl OverflowError)"

definition prev_day :: "datetime \<Rightarrow> error + datetime" where
  \<comment> \<open>\<open>t - timedelta(days=1)\<close>\<close>
  "prev_day t =
     (if 1 < day t then Inr (t\<lparr>day := day t - 1\<rparr>)
      else if 1 < month t
        then Inr (t\<lparr>month := month t - 1, day := days_in_month (year t) (month t - 1)\<rparr>)
      else if 1 < year t then Inr (t\<lparr>year := year t - 1, month := 12, day := 31\<rparr>)
      else Inl OverflowError)"

definition dt_replace :: "datetime \<Rightarrow> int \<Rightarrow> int \<Rightarrow> error + datetime" where
  \<comment> \<open>\<open>t.replace(hour=h, minute=m, second=0, microsecond=0)\<close>\<close>
  "dt_replace t h m =
     (if 0 \<le> h \<and> h \<le> 23 \<and> 0 \<le> m \<and> m \<le> 59
      then Inr (t\<lparr>hour := h, minute := m, second := 0, microsecond := 0\<rparr>)
      else Inl ValueError)"

definition second_of_day :: "datetime \<Rightarrow> int" where
  "second_of_day t = hour t * 3600 + minute t * 60 + second t"

definition epoch_seconds :: "datetime \<Rightarrow> int" where
  \<comment> \<open>seconds from 0001-01-01T00:00:00 of the same clock to the reading \<open>t\<close>\<close>
  "epoch_seconds t = (toordinal t - 1) * 86400 + second_of_day t"

definition set_second_of_day :: "datetime \<Rightarrow> int \<Rightarrow> datetime" where
  "set_second_of_day t s =
     t\<lparr>hour := s div 3600, minute := (s mod 3600) div 60, second := s mod 60\<rparr>"

definition astimezone_utc :: "tzinfo \<Rightarrow> datetime \<Rightarrow> error + datetime" where
  \<comment> \<open>\<open>t.astimezone(UTC)\<close> for \<open>t\<close> carrying the zone \<open>tz\<close>: the reading minus its offset\<close>
  "astimezone_utc tz t =
     (let off = tz t in
      if off \<le> - 86400 \<or> 86400 \<le> off then Inl ValueError
      else
        let total = second_of_day t - off;
            s = total mod 86400
        in if total < 0
             then (case prev_day t of Inl e \<Rightarrow> Inl e | Inr p \<Rightarrow> Inr (set_second_of_day p s))
           else if 86400 \<le> total
             then (case next_day t of Inl e \<Rightarrow> Inl e | Inr n \<Rightarrow> Inr (set_second_of_day n s))
           else Inr (set_second_of_day t s))"

definition isoformat_utc :: "datetime \<Rightarrow> pystr" where
  \<comment> \<open>\<open>isoformat()\<close> of an aware value in UTC\<close>
  "isoformat_utc t =
     zero_pad 4 (year t) @ lit ''-'' @ zero_pad 2 (month t) @ lit ''-'' @ zero_pad 2 (day t)
     @ lit ''T'' @ zero_pad 2 (hour t) @ lit '':'' @ zero_pad 2 (minute t)
     @ lit '':'' @ zero_pad 2 (second t)
     @ (if microsecond t \<noteq> 0 then lit ''.'' @ zero_pad 6 (microsecond t) else [])
     @ lit ''+00:00''"

definition strftime_dmy :: "datetime \<Rightarrow> pystr" where
  \<comment> \<open>\<open>strftime("%d/%m/%Y")\<close>; the year in four digits, as every platform prints
      the years from 1000 on\<close>
  "strftime_dmy t =
     zero_pad 2 (day t) @ lit ''/'' @ zero_pad 2 (month t) @ lit ''/'' @ zero_pad 4 (year t)"

definition strftime_ymd :: "datetime \<Rightarrow> pystr" where
  \<comment> \<open>\<open>strftime("%Y-%m-%d")\<close>\<close>
  "strftime_ymd t =
     zero_pad 4 (year t) @ lit ''-'' @ zero_pad 2 (month t) @ lit ''-'' @ zero_pad 2 (day t)"

definition parse_send_time :: "pystr \<Rightarrow> error + int \<times> int" where
  \<comment> \<open>\<open>send_hour, send_minute = map(int, send_time.split(":"))\<close>\<close>
  "parse_send_time s =
     (case split_on 58 s of
        [a, b] \<Rightarrow>
          (case py_int a of
             Inl e \<Rightarrow> Inl e
           | Inr h \<Rightarrow> (case py_int b of Inl e \<Rightarrow> Inl e | Inr m \<Rightarrow> Inr (h, m)))
      | _ \<Rightarrow> Inl ValueError)"

definition publish_dt_local :: "datetime \<Rightarrow> pystr \<Rightarrow> error + datetime" where
  \<comment> \<open>lines 265 to 267 of \<open>main\<close>\<close>
  "publish_dt_local now_local st =
     (case parse_send_time st of
        Inl e \<Rightarrow> Inl e
      | Inr (send_hour, send_minute) \<Rightarrow>
          (case next_day now_local of
             Inl e \<Rightarrow> Inl e
           | Inr t \<Rightarrow> dt_replace t send_hour send_minute))"

section \<open>The environment of a run\<close>

text \<open>
  What the script reads from outside itself is a field of \<open>env\<close>: the script's
  directory (\<open>os.path.dirname(__file__)\<close>), the file each path names, the files that
  cannot be opened for writing, the JSON parser at the two types the script reads, the
  HTTP endpoints, the time-zone database, the two clocks and the two random draws. The
  files are the state: a map from files to their text.

  Which file a path names is the operating system's answer, not a matter of spelling:
  \<open>locate\<close> gives, for a path as the script writes it, the file it reaches from the
  working directory, through \<open>.\<close>, \<open>..\<close>, repeated slashes and links. Two paths name one
  file exactly when \<open>locate\<close> sends them to the same name.

  The zone database stands for \<open>zoneinfo\<close>, which the script's Python 3.9 provides: a
  zone gives the offset of each wall-clock reading, and a name it does not know ends the
  run. An endpoint answers with the parsed body, or with the error \<open>raise_for_status\<close>
  or the JSON decoder raises; the body of the analytics answer is a JSON object of
  integer counters or some other JSON value. Paths are joined as \<open>posixpath\<close> joins them,
  and writing leaves line endings as they are. A file is read in full or is missing. It
  is opened for writing unless it is listed as unwritable; opening with \<open>"w"\<close> empties
  it and opening with \<open>"a"\<close> creates it, and a later \<open>write\<close> of text that UTF-8 cannot
  encode (a lone surrogate) raises and writes nothing of that text. The lines the script
  prints are left out.
\<close>

record email_request =
  authorization :: pystr
  req_subject :: pystr
  req_body :: pystr
  req_status :: pystr
  req_publish_date :: pystr
  req_newsletter_id :: "pystr option"

type_synonym analytics = "pystr \<rightharpoonup> int"

datatype analytics_body = Counters analytics | NotAnObject

record env =
  locate :: "pystr \<Rightarrow> pystr"
  script_dir :: pystr
  unwritable :: "pystr set"
  json_load_object :: "pystr \<Rightarrow> error + item"
  json_load_pool :: "pystr \<Rightarrow> error + item list"
  http_get_pool :: "pystr \<Rightarrow> error + item list"
  zone_info :: "pystr \<Rightarrow> tzinfo option"
  now_in_zone :: datetime
  now_naive :: datetime
  random_quote :: nat
  random_product :: nat
  post_email :: "email_request \<Rightarrow> error + pystr option"
  get_analytics :: "pystr \<Rightarrow> pystr \<Rightarrow> error + analytics_body"

type_synonym fs = "pystr \<rightharpoonup> pystr"

definition path_join :: "pystr \<Rightarrow> pystr \<Rightarrow> pystr" where
  \<comment> \<open>\<open>os.path.join(a, b)\<close> of \<open>posixpath\<close>\<close>
  "path_join a b =
     (if prefix (lit ''/'') b then b
      else if a = [] \<or> last a = 47 then a @ b
      else a @ lit ''/'' @ b)"

definition resolve :: "env \<Rightarrow> pystr \<Rightarrow> pystr" where
  \<comment> \<open>the file a path names\<close>
  "resolve e p = locate e p"

definition os_path_exists :: "env \<Rightarrow> fs \<Rightarrow> pystr \<Rightarrow> bool" where
  "os_path_exists e f p = (f (resolve e p) \<noteq> None)"

fun universal_newlines :: "pystr \<Rightarrow> pystr" where
  "universal_newlines [] = []"
| "universal_newlines [c] = [if c = 13 then 10 else c]"
| "universal_newlines (c # d # cs) =
     (if c = 13 \<and> d = 10 then 10 # universal_newlines cs
      else if c = 13 then 10 # universal_newlines (d # cs)
      else c # universal_newlines (d # cs))"

definition read_text :: "env \<Rightarrow> fs \<Rightarrow> pystr \<Rightarrow> error + pystr" where
  \<comment> \<open>\<open>open(p, "r", encoding="utf-8").read()\<close>: text mode translates line endings\<close>
  "read_text e f p =
     (case f (resolve e p) of
        None \<Rightarrow> Inl (FileNotFoundError p)
      | Some c \<Rightarrow> Inr (universal_newlines c))"

definition utf8_encodable :: "pystr \<Rightarrow> bool" where
  \<comment> \<open>no lone surrogate\<close>
  "utf8_encodable s = list_all (\<lambda>c. \<not> (55296 \<le> c \<and> c \<le> 57343)) s"

definition file_text :: "env \<Rightarrow> fs \<Rightarrow> pystr \<Rightarrow> pystr" where
  \<comment> \<open>what the file holds, nothing when it does not exist\<close>
  "file_text e f p = (case f (resolve e p) of None \<Rightarrow> [] | Some c \<Rightarrow> c)"

definition write_text :: "env \<Rightarrow> fs \<Rightarrow> pystr \<Rightarrow> pystr \<Rightarrow> (error + unit) \<times> fs" where
  \<comment> \<open>\<open>open(p, "w", encoding="utf-8")\<close>, which empties the file, then \<open>write(s)\<close>\<close>
  "write_text e f p s =
     (if resolve e p \<in> unwritable e then (Inl (PermissionError p), f)
      else
        let opened = f(resolve e p \<mapsto> []) in
        if utf8_encodable s then (Inr (), opened(resolve e p \<mapsto> s))
        else (Inl UnicodeEncodeError, opened))"

definition open_append :: "env \<Rightarrow> fs \<Rightarrow> pystr \<Rightarrow> error + fs" where
  \<comment> \<open>\<open>open(p, "a", newline="", encoding="utf-8")\<close>, which creates a missing file\<close>
  "open_append e f p =
     (if resolve e p \<in> unwritable e then Inl (PermissionError p)
      else Inr (f(resolve e p \<mapsto> file_text e f p)))"

definition write_more :: "env \<Rightarrow> fs \<Rightarrow> pystr \<Rightarrow> pystr \<Rightarrow> error + fs" where
  \<comment> \<open>one \<open>write(s)\<close> to a file opened for appending\<close>
  "write_more e f p s =
     (if utf8_encodable s then Inr (f(resolve e p \<mapsto> file_text e f p @ s))
      else Inl UnicodeEncodeError)"

section \<open>Content pools\<close>

definition load_json_data :: "env \<Rightarrow> fs \<Rightarrow> pystr \<Rightarrow> error + item list" where
  "load_json_data e f path_or_url =
     (if re_match_http path_or_url then http_get_pool e path_or_url
      else (case read_text e f path_or_url of
              Inl err \<Rightarrow> Inl err
            | Inr text \<Rightarrow> json_load_pool e text))"

definition Config_load :: "env \<Rightarrow> fs \<Rightarrow> pystr \<Rightarrow> error + Config" where
  "Config_load e f path =
     (case read_text e f path of
        Inl err \<Rightarrow> Inl err
      | Inr text \<Rightarrow>
          (case json_load_object e text of
             Inl err \<Rightarrow> Inl err
           | Inr data \<Rightarrow> Config_of_data data))"

definition choose_random_item :: "nat \<Rightarrow> item list \<Rightarrow> error + item" where
  \<comment> \<open>\<open>random.choice(items)\<close> with the draw \<open>r\<close>; an empty pool raises\<close>
  "choose_random_item r items =
     (if items = [] then Inl IndexError else Inr (items ! (r mod length items)))"

definition fallback_quotes :: "item list" where
  "fallback_quotes =
     [ [lit ''text'' \<mapsto>
          lit ''La lumi'' @ [232] @ lit ''re que tu cherches '' @ [224] @ lit '' l'' @ [8217]
          @ lit ''ext'' @ [233] @ lit ''rieur brille d'' @ [233] @ lit ''j'' @ [224]
          @ lit '' en toi.''],
       [lit ''text'' \<mapsto>
          lit ''Chaque jour est une nouvelle chance de semer des graines de bonheur.''] ]"

definition quotes_path :: "env \<Rightarrow> pystr" where
  "quotes_path e =
     path_join (path_join (path_join (script_dir e) (lit ''assets'')) (lit ''data''))
       (lit ''quotes.json'')"

definition products_path :: "env \<Rightarrow> pystr" where
  "products_path e =
     path_join (path_join (path_join (script_dir e) (lit ''assets'')) (lit ''data''))
       (lit ''products.json'')"

definition quotes_data :: "env \<Rightarrow> fs \<Rightarrow> error + item list" where
  \<comment> \<open>line 270 of \<open>main\<close>\<close>
  "quotes_data e f =
     (if os_path_exists e f (quotes_path e) then load_json_data e f (quotes_path e)
      else Inr fallback_quotes)"

section \<open>Rendering\<close>

definition image_url_of :: "Config \<Rightarrow> item \<Rightarrow> pystr" where
  \<comment> \<open>lines 151 to 155 of \<open>generate_email_html\<close>\<close>
  "image_url_of config product =
     (let image_path = dict_get product (lit ''image'') [] in
      if image_path \<noteq> [] \<and> \<not> re_match_http image_path
      then site_url config @ lit ''/'' @ lstrip_slash image_path
      else image_path)"

definition tip_value :: "Config \<Rightarrow> pystr" where
  \<comment> \<open>the value put for the tip link, line 166\<close>
  "tip_value config =
     (if tip_link config \<noteq> [] then append_utm (tip_link config) config else lit ''#'')"

definition generate_email_html ::
  "env \<Rightarrow> fs \<Rightarrow> pystr \<Rightarrow> item \<Rightarrow> item \<Rightarrow> Config \<Rightarrow> pystr \<Rightarrow> error + pystr" where
  "generate_email_html e f recipient_name quote product config template_path =
     (case read_text e f template_path of
        Inl err \<Rightarrow> Inl err
      | Inr template \<Rightarrow>
     (case dict_item product (lit ''link'') of
        Inl err \<Rightarrow> Inl err
      | Inr link \<Rightarrow>
     let product_link = append_utm link config;
         image_url = image_url_of config product;
         html = template;
         html = py_replace html (lit ''{{NAME}}'') recipient_name
     in
     (case dict_item quote (lit ''text'') of
        Inl err \<Rightarrow> Inl err
      | Inr quote_text \<Rightarrow>
     let html = py_replace html (lit ''{{QUOTE}}'') quote_text in
     (case dict_item product (lit ''title'') of
        Inl err \<Rightarrow> Inl err
      | Inr title \<Rightarrow>
     let html = py_replace html (lit ''{{PRODUCT_TITLE}}'') title in
     (case dict_item product (lit ''description'') of
        Inl err \<Rightarrow> Inl err
      | Inr description \<Rightarrow>
     let html = py_replace html (lit ''{{PRODUCT_DESC}}'') description;
         html = py_replace html (lit ''{{PRODUCT_IMG}}'') image_url;
         html = py_replace html (lit ''{{PRODUCT_LINK}}'') product_link;
         html = py_replace html (lit ''{{TIP_LINK}}'') (tip_value config);
         html = py_replace html (lit ''{{DATE}}'') (strftime_dmy (now_naive e))
     in Inr html)))))"

definition sparkle :: pystr where
  \<comment> \<open>U+2728 and a space, the start of every subject\<close>
  "sparkle = [10024, 32]"

definition ellipsis :: pystr where
  \<comment> \<open>U+2026\<close>
  "ellipsis = [8230]"

definition make_subject :: "item \<Rightarrow> error + pystr" where
  \<comment> \<open>line 291 of \<open>main\<close>\<close>
  "make_subject quote =
     (case dict_item quote (lit ''text'') of
        Inl err \<Rightarrow> Inl err
      | Inr text \<Rightarrow>
          if length text > 40 then Inr (sparkle @ take 40 text @ ellipsis)
          else Inr (sparkle @ text))"

section \<open>Scheduling\<close>

definition py_str_id :: "pystr option \<Rightarrow> pystr" where
  \<comment> \<open>\<open>str(email_id)\<close>, where \<open>email_id = resp_json.get("id")\<close> may be \<open>None\<close>\<close>
  "py_str_id i = (case i of None \<Rightarrow> lit ''None'' | Some s \<Rightarrow> s)"

definition schedule_email ::
  "env \<Rightarrow> fs \<Rightarrow> pystr \<Rightarrow> pystr \<Rightarrow> datetime \<Rightarrow> tzinfo \<Rightarrow> Config \<Rightarrow> pystr
     \<Rightarrow> (error + pystr option) \<times> fs" where
  "schedule_email e f subject body_html publish_datetime tz config previous_email_id_path =
     (case zone_info e (lit ''UTC'') of
        None \<Rightarrow> (Inl (UnknownTimeZone (lit ''UTC'')), f)
      | Some utc_zone \<Rightarrow>
     (case astimezone_utc tz publish_datetime of
        Inl err \<Rightarrow> (Inl err, f)
      | Inr utc \<Rightarrow>
     let data =
           \<lparr> authorization = lit ''Token '' @ buttondown_api_key config,
             req_subject = subject,
             req_body = body_html,
             req_status = lit ''scheduled'',
             req_publish_date = isoformat_utc utc,
             req_newsletter_id =
               (case newsletter_id config of
                  None \<Rightarrow> None
                | Some n \<Rightarrow> if n \<noteq> [] then Some n else None) \<rparr>
     in
     (case post_email e data of
        Inl err \<Rightarrow> (Inl err, f)
      | Inr email_id \<Rightarrow>
     (case write_text e f previous_email_id_path (py_str_id email_id) of
        (Inl err, f') \<Rightarrow> (Inl err, f')
      | (Inr u, f') \<Rightarrow> (Inr email_id, f')))))"

section \<open>Analytics and the report\<close>

definition retrieve_analytics :: "env \<Rightarrow> pystr \<Rightarrow> Config \<Rightarrow> error + analytics_body" where
  "retrieve_analytics e email_id config =
     get_analytics e
       (lit ''https://api.buttondown.com/v1/emails/'' @ email_id @ lit ''/analytics'')
       (lit ''Token '' @ buttondown_api_key config)"

text \<open>
  \<open>csv.writer\<close> with its default dialect: a cell holding a comma, a double quote or a
  line break is quoted, its quotes doubled; a row ends with CR LF.
\<close>

definition csv_field :: "pystr \<Rightarrow> pystr" where
  "csv_field c =
     (if list_ex (\<lambda>x. x = 44 \<or> x = 34 \<or> x = 13 \<or> x = 10) c
      then [34] @ concat (map (\<lambda>x. if x = 34 then [34, 34] else [x]) c) @ [34]
      else c)"

fun join_cells :: "pystr list \<Rightarrow> pystr" where
  "join_cells [] = []"
| "join_cells [c] = c"
| "join_cells (c # d # cs) = c @ [44] @ join_cells (d # cs)"

definition csv_row :: "pystr list \<Rightarrow> pystr" where
  "csv_row cells =
     (if cells = [[]] then [34, 34] else join_cells (map csv_field cells)) @ [13, 10]"

definition report_headers :: "pystr list" where
  "report_headers =
     [lit ''Date'', lit ''Subject'', lit ''Recipients'', lit ''Deliveries'', lit ''Opens'',
      lit ''Clicks'', lit ''TemporaryFailures'', lit ''PermanentFailures'',
      lit ''Unsubscriptions'', lit ''Complaints'']"

definition counter :: "analytics \<Rightarrow> pystr \<Rightarrow> pystr" where
  \<comment> \<open>\<open>data.get(k, 0)\<close>, as the writer prints it\<close>
  "counter data k = str_int (case data k of None \<Rightarrow> 0 | Some v \<Rightarrow> v)"

definition report_row :: "analytics \<Rightarrow> pystr \<Rightarrow> pystr \<Rightarrow> pystr list" where
  "report_row data subject date_str =
     [date_str, subject,
      counter data (lit ''recipients''), counter data (lit ''deliveries''),
      counter data (lit ''opens''), counter data (lit ''clicks''),
      counter data (lit ''temporary_failures''), counter data (lit ''permanent_failures''),
      counter data (lit ''unsubscriptions''), counter data (lit ''complaints'')]"

definition append_report_row ::
  "env \<Rightarrow> fs \<Rightarrow> analytics_body \<Rightarrow> Config \<Rightarrow> pystr \<Rightarrow> pystr \<Rightarrow> (error + unit) \<times> fs" where
  \<comment> \<open>the file is opened, the header written if the file is new, and only then is the
      row built from \<open>data\<close> and written: a failure leaves what was written before it\<close>
  "append_report_row e f data config subject date_str =
     (let report_exists = os_path_exists e f (reports_csv config) in
      case open_append e f (reports_csv config) of
        Inl err \<Rightarrow> (Inl err, f)
      | Inr f0 \<Rightarrow>
     (case (if \<not> report_exists then write_more e f0 (reports_csv config) (csv_row report_headers)
            else Inr f0) of
        Inl err \<Rightarrow> (Inl err, f0)
      | Inr f1 \<Rightarrow>
     (case data of
        NotAnObject \<Rightarrow> (Inl AttributeError, f1)
      | Counters counters \<Rightarrow>
     (case write_more e f1 (reports_csv config)
             (csv_row (report_row counters subject date_str)) of
        Inl err \<Rightarrow> (Inl err, f1)
      | Inr f2 \<Rightarrow> (Inr (), f2)))))"

section \<open>The run\<close>

text \<open>
  \<open>main\<close> is one straight sequence. Its lines 255 to 291 read files and compute, so an
  error there leaves the files as they were; they are \<open>main_prepare\<close>, and what they
  hand on is a \<open>prepared\<close> record. Lines 294 to 316 schedule, report and overwrite the
  identifier file; they are \<open>main_deliver\<close>, and an error there is returned together
  with the files as they are at that moment. \<open>schedule_email\<close> is called without a path,
  so it writes \<open>.last_email_id\<close> relative to the working directory, while \<open>main\<close> reads
  and overwrites the file of that name beside the script.
\<close>

record prepared =
  p_config :: Config
  p_tz :: tzinfo
  p_now_local :: datetime
  p_publish :: datetime
  p_body :: pystr
  p_subject :: pystr

definition main_prepare :: "env \<Rightarrow> fs \<Rightarrow> error + prepared" where
  \<comment> \<open>lines 255 to 291 of \<open>main\<close>; they only read\<close>
  "main_prepare e f =
     (case Config_load e f (path_join (script_dir e) (lit ''config.json'')) of
        Inl err \<Rightarrow> Inl err
      | Inr config \<Rightarrow>
     (case zone_info e (timezone config) of
        None \<Rightarrow> Inl (UnknownTimeZone (timezone config))
      | Some tz \<Rightarrow>
     let now_local = now_in_zone e in
     (case publish_dt_local now_local (send_time config) of
        Inl err \<Rightarrow> Inl err
      | Inr publish \<Rightarrow>
     (case quotes_data e f of
        Inl err \<Rightarrow> Inl err
      | Inr quotes \<Rightarrow>
     (case load_json_data e f (products_path e) of
        Inl err \<Rightarrow> Inl err
      | Inr products \<Rightarrow>
     (case choose_random_item (random_quote e) quotes of
        Inl err \<Rightarrow> Inl err
      | Inr quote \<Rightarrow>
     (case choose_random_item (random_product e) products of
        Inl err \<Rightarrow> Inl err
      | Inr product \<Rightarrow>
     let template_path = path_join (script_dir e) (lit ''email_template.html'') in
     if \<not> os_path_exists e f template_path then Inl (FileNotFoundError template_path)
     else
     (case generate_email_html e f (lit ''{{ subscriber.name }}'') quote product config
             template_path of
        Inl err \<Rightarrow> Inl err
      | Inr body_html \<Rightarrow>
     (case make_subject quote of
        Inl err \<Rightarrow> Inl err
      | Inr subject \<Rightarrow>
          Inr \<lparr> p_config = config, p_tz = tz, p_now_local = now_local,
                p_publish = publish, p_body = body_html, p_subject = subject \<rparr>)))))))))"

definition main_id_path :: "env \<Rightarrow> pystr" where
  \<comment> \<open>line 303: the identifier file \<open>main\<close> reads and overwrites\<close>
  "main_id_path e = path_join (script_dir e) (lit ''.last_email_id'')"

definition default_id_path :: pystr where
  \<comment> \<open>the default of \<open>schedule_email\<close>'s \<open>previous_email_id_path\<close>, which \<open>main\<close> leaves\<close>
  "default_id_path = lit ''.last_email_id''"

definition report_previous ::
  "env \<Rightarrow> fs \<Rightarrow> Config \<Rightarrow> pystr \<Rightarrow> datetime \<Rightarrow> pystr option \<Rightarrow> (error + unit) \<times> fs" where
  \<comment> \<open>lines 303 to 312 of \<open>main\<close>\<close>
  "report_previous e f config subject now_local email_id =
     (if os_path_exists e f (main_id_path e) then
        (case read_text e f (main_id_path e) of
           Inl err \<Rightarrow> (Inl err, f)
         | Inr text \<Rightarrow>
        let last_email_id = py_strip text in
        if last_email_id \<noteq> [] \<and> last_email_id \<noteq> py_str_id email_id then
          (case retrieve_analytics e last_email_id config of
             Inl err \<Rightarrow> (Inl err, f)
           | Inr data \<Rightarrow>
          (case prev_day now_local of
             Inl err \<Rightarrow> (Inl err, f)
           | Inr yesterday \<Rightarrow>
          append_report_row e f data config subject (strftime_ymd yesterday)))
        else (Inr (), f))
      else (Inr (), f))"

definition main_deliver :: "env \<Rightarrow> fs \<Rightarrow> prepared \<Rightarrow> (error + unit) \<times> fs" where
  \<comment> \<open>lines 294 to 316 of \<open>main\<close>\<close>
  "main_deliver e f p =
     (case schedule_email e f (p_subject p) (p_body p) (p_publish p) (p_tz p) (p_config p)
             default_id_path of
        (Inl err, f1) \<Rightarrow> (Inl err, f1)
      | (Inr email_id, f1) \<Rightarrow>
     (case report_previous e f1 (p_config p) (p_subject p) (p_now_local p) email_id of
        (Inl err, f2) \<Rightarrow> (Inl err, f2)
      | (Inr u, f2) \<Rightarrow>
     write_text e f2 (main_id_path e) (py_str_id email_id)))"

definition main :: "env \<Rightarrow> fs \<Rightarrow> (error + unit) \<times> fs" where
  "main e f =
     (case main_prepare e f of
        Inl err \<Rightarrow> (Inl err, f)
      | Inr p \<Rightarrow> main_deliver e f p)"

section \<open>Example runs\<close>

text \<open>
  Concrete configurations, clocks and environments on which the theorems below are
  evaluated. The script lives in \<open>/srv/app\<close>; the working directory, the identifier
  the provider assigns and the answer of the analytics endpoint for the email \<open>e1\<close>
  vary from run to run. These machines have no links, and the paths of the runs no
  \<open>.\<close> or \<open>..\<close>, so a path names the file of its spelling joined to the working
  directory.
\<close>

definition demo_config :: Config where
  "demo_config =
     \<lparr> buttondown_api_key = lit ''k'', newsletter_id = None, send_time = lit ''08:00'',
       timezone = lit ''Europe/Paris'', utm_source = lit ''abc'', utm_medium = lit ''email'',
       utm_campaign = lit ''x'', tip_link = [], reports_csv = lit ''report.csv'',
       site_url = lit ''https://example.org'' \<rparr>"

definition demo_now :: datetime where
  "demo_now = \<lparr> year = 2024, month = 1, day = 10, hour = 23, minute = 0, second = 0,
                 microsecond = 0 \<rparr>"

definition demo_env :: "pystr \<Rightarrow> pystr option \<Rightarrow> error + analytics_body \<Rightarrow> env" where
  "demo_env wd new_id stats =
     \<lparr> locate = path_join wd, script_dir = lit ''/srv/app'', unwritable = {},
       json_load_object =
         (\<lambda>t. if t = lit ''C'' then Inr [lit ''buttondown_api_key'' \<mapsto> lit ''k'']
              else Inl JSONDecodeError),
       json_load_pool =
         (\<lambda>t. if t = lit ''P''
              then Inr [[lit ''title'' \<mapsto> lit ''Lamp'', lit ''description'' \<mapsto> lit ''Warm'',
                         lit ''link'' \<mapsto> lit ''https://shop.example/item?ref=1'']]
              else Inl JSONDecodeError),
       http_get_pool = (\<lambda>u. Inl HTTPError),
       zone_info =
         (\<lambda>z. if z = lit ''Europe/Paris'' then Some (\<lambda>t. 3600)
              else if z = lit ''UTC'' then Some (\<lambda>t. 0) else None),
       now_in_zone = demo_now, now_naive = demo_now,
       random_quote = 1, random_product = 0,
       post_email = (\<lambda>r. Inr new_id),
       get_analytics =
         (\<lambda>u a. if u = lit ''https://api.buttondown.com/v1/emails/e1/analytics''
                then stats else Inl HTTPError) \<rparr>"

definition demo_prepared :: prepared where
  \<comment> \<open>what lines 255 to 291 hand on when the quote is \<open>Bonjour\<close>\<close>
  "demo_prepared =
     \<lparr> p_config = demo_config, p_tz = (\<lambda>t. 3600), p_now_local = demo_now,
       p_publish = \<lparr> year = 2024, month = 1, day = 11, hour = 8, minute = 0, second = 0,
                     microsecond = 0 \<rparr>,
       p_body = lit ''<p>Bonjour</p>'', p_subject = sparkle @ lit ''Bonjour'' \<rparr>"

definition demo_stats :: analytics where
  "demo_stats = [lit ''recipients'' \<mapsto> 12, lit ''opens'' \<mapsto> 7]"

definition demo_ids :: fs where
  \<comment> \<open>what a completed earlier run, which scheduled \<open>e1\<close>, left in both directories\<close>
  "demo_ids = [lit ''/srv/app/.last_email_id'' \<mapsto> lit ''e1'',
               lit ''/home/u/.last_email_id'' \<mapsto> lit ''e1'']"


definition demo_site :: fs where
  \<comment> \<open>the script's directory after a completed run that scheduled \<open>e1\<close>; no quote pool\<close>
  "demo_site =
     [lit ''/srv/app/config.json'' \<mapsto> lit ''C'',
      lit ''/srv/app/email_template.html'' \<mapsto> lit ''<p>{{QUOTE}}</p>'',
      lit ''/srv/app/assets/data/products.json'' \<mapsto> lit ''P'',
      lit ''/srv/app/.last_email_id'' \<mapsto> lit ''e1'']"

definition demo_site_config :: Config where
  \<comment> \<open>the configuration \<open>Config.load\<close> builds from a file that gives the API key only\<close>
  "demo_site_config =
     \<lparr> buttondown_api_key = lit ''k'', newsletter_id = None, send_time = lit ''08:00'',
       timezone = lit ''Europe/Paris'', utm_source = lit ''lueurquotidienne'',
       utm_medium = lit ''email'', utm_campaign = lit ''daily_quote'', tip_link = [],
       reports_csv = lit ''analytics_report.csv'',
       site_url = lit ''https://lueur-quotidienne.netlify.app'' \<rparr>"

definition nested_template :: pystr where
  "nested_template = lit ''<p>{{QUOTE}}</p><b>{{PRODUCT_TITLE}}</b>''"

definition nested_quote :: item where
  "nested_quote = [lit ''text'' \<mapsto> lit ''Le {{DATE}}'']"

definition nested_product :: item where
  "nested_product =
     [lit ''title'' \<mapsto> lit ''{{QUOTE}}'', lit ''description'' \<mapsto> lit ''Warm'',
      lit ''link'' \<mapsto> lit ''https://shop.example/item'']"

definition image_template :: pystr where
  "image_template = lit ''<img src={{PRODUCT_IMG}}>{{PRODUCT_TITLE}}''"

definition plain_product :: item where
  \<comment> \<open>a product with no \<open>image\<close> field\<close>
  "plain_product =
     [lit ''title'' \<mapsto> lit ''Lamp'', lit ''description'' \<mapsto> lit ''Warm'',
      lit ''link'' \<mapsto> lit ''https://shop.example/item'']"

section \<open>Facts about the string operations\<close>

lemma py_contains_single: "py_contains [c] s = (c \<in> set s)"
  by (induction s) auto

lemma lit_question: "lit ''?'' = [63]"
  by (simp add: lit_def)

lemma lit_slash: "lit ''/'' = [47]" "lit ''//'' = [47, 47]"
  by (simp_all add: lit_def)

lemma suffix_slash: "suffix [47::nat] s = (s \<noteq> [] \<and> last s = 47)"
  by (cases s rule: rev_cases) (auto simp: suffix_def)

lemma lstrip_slash_hd: "lstrip_slash p = [] \<or> hd (lstrip_slash p) \<noteq> 47"
  unfolding lstrip_slash_def by (metis (mono_tags, lifting) hd_dropWhile)

lemma join_window:
  assumes "\<not> suffix [47] s" and "q = [] \<or> hd q \<noteq> 47"
  shows "\<not> py_contains [47, 47] (take 3 (drop (length s - 1) (s @ [47] @ q)))"
proof (cases s rule: rev_cases)
  case Nil
  with assms show ?thesis by (cases q; cases "tl q") auto
next
  case (snoc s' a)
  with assms have "a \<noteq> 47" by (simp add: suffix_slash)
  with snoc assms(2) show ?thesis by (cases q) auto
qed

text \<open>Reading a send time written as two digits, a colon and two digits.\<close>

lemma int_strip_two_digits:
  assumes "a < 10" and "b < 10"
  shows "int_strip [48 + a, 48 + b] = [48 + a, 48 + b]"
  using assms by (simp add: int_strip_def int_isspace_def py_isspace_def)

lemma py_int_two_digits:
  assumes "a < 10" and "b < 10"
  shows "py_int [48 + a, 48 + b] = Inr (int (a * 10 + b))"
  using assms
  by (simp add: py_int_def int_strip_two_digits Let_def int_digits_def is_digit_def
      digits_value_def)

lemma split_on_hhmm:
  assumes "a < 10" "b < 10" "c < 10" "d < 10"
  shows "split_on 58 [48 + a, 48 + b, 58, 48 + c, 48 + d] = [[48 + a, 48 + b], [48 + c, 48 + d]]"
  using assms by simp

lemma parse_send_time_hhmm:
  assumes "h < 100" and "m < 100"
  shows "parse_send_time [48 + h div 10, 48 + h mod 10, 58, 48 + m div 10, 48 + m mod 10]
           = Inr (int h, int m)"
proof -
  have d: "h div 10 < 10" "h mod 10 < 10" "m div 10 < 10" "m mod 10 < 10"
    using assms by simp_all
  have "h div 10 * 10 + h mod 10 = h" "m div 10 * 10 + m mod 10 = m" by simp_all
  then show ?thesis
    unfolding parse_send_time_def split_on_hhmm [OF d]
    using py_int_two_digits [OF d(1,2)] py_int_two_digits [OF d(3,4)] by simp
qed

section \<open>Link instrumentation: the delimiter and the order of the parameters\<close>

text \<open>
  Claim C4. \<open>append_utm\<close> is a function of the URL and the configuration. Its result is
  the URL, then \<open>&\<close> when the URL already holds a \<open>?\<close> and \<open>?\<close> otherwise, then
  \<open>utm_source\<close>, \<open>utm_medium\<close> and \<open>utm_campaign\<close> in this order.
\<close>

theorem append_utm_delimiter:
  "append_utm url config =
     url @ (if 63 \<in> set url then lit ''&'' else lit ''?'')
     @ lit ''utm_source='' @ utm_source config
     @ lit ''&utm_medium='' @ utm_medium config
     @ lit ''&utm_campaign='' @ utm_campaign config"
  by (simp add: append_utm_def Let_def lit_question py_contains_single)

text \<open>The scenario of the specification, and the same link without a query string.\<close>

theorem append_utm_example:
  "append_utm (lit ''https://shop.example/item?ref=1'') demo_config
     = lit ''https://shop.example/item?ref=1&utm_source=abc&utm_medium=email&utm_campaign=x''
   \<and> append_utm (lit ''https://shop.example/item'') demo_config
     = lit ''https://shop.example/item?utm_source=abc&utm_medium=email&utm_campaign=x''"
  using append_utm_delimiter [of "lit ''https://shop.example/item?ref=1''" demo_config]
    append_utm_delimiter [of "lit ''https://shop.example/item''" demo_config]
  by (simp add: demo_config_def lit_def)

section \<open>The subject line\<close>

text \<open>
  Claim C5. The subject is the sparkle marker and a space, followed by the first 40
  characters of the quote and an ellipsis when the quote is longer than 40 characters,
  and by the whole quote, with no ellipsis, when it has 40 characters or fewer.
\<close>

theorem subject_truncation:
  assumes "quote (lit ''text'') = Some t"
  shows "(40 < length t \<longrightarrow> make_subject quote = Inr (sparkle @ take 40 t @ ellipsis))
       \<and> (length t \<le> 40 \<longrightarrow> make_subject quote = Inr (sparkle @ t))"
  using assms by (simp add: make_subject_def dict_item_def)

theorem subject_truncation_witness:
  "make_subject (fallback_quotes ! 1)
     = Inr ([10024, 32] @ lit ''Chaque jour est une nouvelle chance de s'' @ [8230])
   \<and> make_subject [lit ''text'' \<mapsto> lit ''Bonjour''] = Inr ([10024, 32] @ lit ''Bonjour'')"
  using subject_truncation [of "fallback_quotes ! 1"
      "lit ''Chaque jour est une nouvelle chance de semer des graines de bonheur.''"]
    subject_truncation [of "[lit ''text'' \<mapsto> lit ''Bonjour'']" "lit ''Bonjour''"]
  by (simp add: fallback_quotes_def sparkle_def ellipsis_def lit_def)

section \<open>The image address\<close>

text \<open>
  Claim C6, as amended. For a non-empty image path: one that starts with \<open>http://\<close> or
  \<open>https://\<close> passes through unchanged; any other is rendered as the site address, one
  \<open>/\<close>, and the path without its leading slashes, so the joining slash is never followed
  by a second one, and the three characters around the join hold no double slash provided
  the site address does not itself end in \<open>/\<close>.
\<close>

theorem image_url_resolution:
  assumes "product (lit ''image'') = Some p" and "p \<noteq> []"
  shows "(re_match_http p \<longrightarrow> image_url_of config product = p)
       \<and> (\<not> re_match_http p \<longrightarrow>
            image_url_of config product = site_url config @ lit ''/'' @ lstrip_slash p
            \<and> \<not> prefix (lit ''/'') (lstrip_slash p)
            \<and> (\<not> suffix (lit ''/'') (site_url config) \<longrightarrow>
                 \<not> py_contains (lit ''//'')
                     (take 3 (drop (length (site_url config) - 1)
                                (image_url_of config product)))))"
proof -
  have u: "\<not> re_match_http p \<Longrightarrow>
      image_url_of config product = site_url config @ [47] @ lstrip_slash p"
    using assms by (simp add: image_url_of_def dict_get_def lit_slash)
  have k: "re_match_http p \<Longrightarrow> image_url_of config product = p"
    using assms by (simp add: image_url_of_def dict_get_def)
  have h: "\<not> prefix [47] (lstrip_slash p)"
    using lstrip_slash_hd [of p] by (cases "lstrip_slash p") auto
  show ?thesis
    using u k h join_window [OF _ lstrip_slash_hd, of "site_url config" p]
    by (auto simp: lit_slash)
qed

theorem image_url_resolution_witness:
  "image_url_of demo_config [lit ''image'' \<mapsto> lit ''/images/cat.png'']
     = lit ''https://example.org/images/cat.png''
   \<and> image_url_of demo_config [lit ''image'' \<mapsto> lit ''https://cdn.example/cat.png'']
     = lit ''https://cdn.example/cat.png''"
  using image_url_resolution [of "[lit ''image'' \<mapsto> lit ''/images/cat.png'']"
        "lit ''/images/cat.png''" demo_config]
      image_url_resolution [of "[lit ''image'' \<mapsto> lit ''https://cdn.example/cat.png'']"
        "lit ''https://cdn.example/cat.png''" demo_config]
  by (simp add: demo_config_def lit_def re_match_http_def lstrip_slash_def)

text \<open>
  The claim as stated promises no double slash for every configuration. A site address
  that ends in a slash keeps it, and the join doubles it.
\<close>

theorem image_url_trailing_slash_counterexample:
  "image_url_of (demo_config\<lparr>site_url := lit ''https://example.org/''\<rparr>)
       [lit ''image'' \<mapsto> lit ''images/cat.png'']
     = lit ''https://example.org//images/cat.png''"
  by (simp add: image_url_of_def dict_get_def demo_config_def lit_def re_match_http_def
      lstrip_slash_def)

section \<open>Facts about the calendar\<close>

text \<open>
  Stepping a date by one day moves its ordinal by one, in both directions, and keeps
  the value a valid \<open>datetime\<close>; the conversion to UTC therefore yields the reading
  that lies the zone's offset earlier on the common time line.
\<close>

lemma div_step:
  fixes y k :: int
  assumes "0 < k"
  shows "y div k = (y - 1) div k + (if y mod k = 0 then 1 else 0)"
proof (cases "y mod k = 0")
  case True
  have "y - 1 = k * (y div k - 1) + (k - 1)"
    using True by (simp add: algebra_simps) (metis mult_div_mod_eq add.right_neutral)
  then have "(y - 1) div k = y div k - 1"
    using assms by (intro int_div_pos_eq [where r = "k - 1"]) auto
  then show ?thesis using True by simp
next
  case False
  have "0 \<le> y mod k" "y mod k < k" using assms by simp_all
  with False have r: "1 \<le> y mod k" by linarith
  have "y - 1 = k * (y div k) + (y mod k - 1)" by (simp add: algebra_simps)
  then have "(y - 1) div k = y div k"
    using assms r \<open>y mod k < k\<close> by (intro int_div_pos_eq [where r = "y mod k - 1"]) auto
  then show ?thesis using False by simp
qed

lemma leap_arith:
  fixes d4 d100 d400 e4 e100 e400 :: int
  assumes "e4 = d4 + (if m4 then 1 else 0)"
      and "e100 = d100 + (if m100 then 1 else 0)"
      and "e400 = d400 + (if m400 then 1 else 0)"
      and "m400 \<longrightarrow> m100" and "m100 \<longrightarrow> m4"
  shows "e4 - e100 + e400 = d4 - d100 + d400 + (if m4 \<and> (\<not> m100 \<or> m400) then 1 else 0)"
  using assms by (cases m4; cases m100; cases m400) simp_all

lemma upto_11: "[1..11::int] = [1, 2, 3, 4, 5, 6, 7, 8, 9, 10, 11]"
  by code_simp

lemma days_before_month_12: "days_before_month y 12 = (if is_leap y then 335 else 334)"
  by (simp add: days_before_month_def days_in_month_def upto_11)

lemma mod_400_100:
  fixes y :: int
  assumes "y mod 400 = 0"
  shows "y mod 100 = 0"
proof -
  have "(100::int) dvd 400" by simp
  moreover have "400 dvd y" using assms by (simp add: mod_eq_0_iff_dvd)
  ultimately have "100 dvd y" by (rule dvd_trans)
  then show ?thesis by simp
qed

lemma mod_100_4:
  fixes y :: int
  assumes "y mod 100 = 0"
  shows "y mod 4 = 0"
proof -
  have "(4::int) dvd 100" by simp
  moreover have "100 dvd y" using assms by (simp add: mod_eq_0_iff_dvd)
  ultimately have "4 dvd y" by (rule dvd_trans)
  then show ?thesis by simp
qed

lemma days_before_year_step:
  "days_before_year (y + 1) = days_before_year y + (if is_leap y then 366 else 365)"
proof -
  have a: "y div 4 = (y - 1) div 4 + (if y mod 4 = 0 then 1 else 0)"
    by (rule div_step) simp
  have b: "y div 100 = (y - 1) div 100 + (if y mod 100 = 0 then 1 else 0)"
    by (rule div_step) simp
  have c: "y div 400 = (y - 1) div 400 + (if y mod 400 = 0 then 1 else 0)"
    by (rule div_step) simp
  have "y div 4 - y div 100 + y div 400 =
          (y - 1) div 4 - (y - 1) div 100 + (y - 1) div 400
          + (if y mod 4 = 0 \<and> (\<not> y mod 100 = 0 \<or> y mod 400 = 0) then 1 else 0)"
    proof (rule leap_arith [OF a b c])
    show "y mod 400 = 0 \<longrightarrow> y mod 100 = 0" by (rule impI) (erule mod_400_100)
    show "y mod 100 = 0 \<longrightarrow> y mod 4 = 0" by (rule impI) (erule mod_100_4)
  qed
  then have "y div 4 - y div 100 + y div 400 =
          (y - 1) div 4 - (y - 1) div 100 + (y - 1) div 400 + (if is_leap y then 1 else 0)"
    by (simp only: is_leap_def)
  then show ?thesis
    unfolding days_before_year_def Let_def by (simp split: if_splits)
qed


lemma days_before_month_step:
  assumes "1 \<le> m"
  shows "days_before_month y (m + 1) = days_before_month y m + days_in_month y m"
proof -
  have "[1..m] = [1..m - 1] @ [m]" using assms by (simp add: upto_rec2)
  then show ?thesis by (simp add: days_before_month_def)
qed

lemma days_before_month_1: "days_before_month y 1 = 0"
  by (simp add: days_before_month_def)

lemma days_in_month_pos: "1 \<le> days_in_month y m"
  by (simp add: days_in_month_def)

lemma days_in_month_12: "days_in_month y 12 = 31"
  by (simp add: days_in_month_def)

lemma next_day_ordinal:
  assumes "valid_datetime t" and "next_day t = Inr t'"
  shows "toordinal t' = toordinal t + 1 \<and> valid_datetime t'"
proof -
  consider (a) "day t < days_in_month (year t) (month t)"
    | (b) "day t = days_in_month (year t) (month t)" "month t < 12"
    | (c) "day t = days_in_month (year t) (month t)" "month t = 12" "year t < 9999"
    | (d) "day t = days_in_month (year t) (month t)" "month t = 12" "year t = 9999"
    using assms(1) unfolding valid_datetime_def by linarith
  then show ?thesis
  proof cases
    case a
    then have "t' = t\<lparr>day := day t + 1\<rparr>" using assms(2) by (simp add: next_day_def)
    then show ?thesis using assms(1) a
      by (simp add: toordinal_def ymd2ord_def valid_datetime_def)
  next
    case b
    then have t': "t' = t\<lparr>month := month t + 1, day := 1\<rparr>"
      using assms(2) by (simp add: next_day_def)
    have "1 \<le> month t" using assms(1) by (simp add: valid_datetime_def)
    from days_before_month_step [OF this, of "year t"] t' b assms(1) show ?thesis
      by (simp add: toordinal_def ymd2ord_def valid_datetime_def days_in_month_pos)
  next
    case c
    then have t': "t' = t\<lparr>year := year t + 1, month := 1, day := 1\<rparr>"
      using assms(2) by (simp add: next_day_def)
    from c have d: "day t = 31" by (simp add: days_in_month_12)
    have v: "valid_datetime t'" using t' c assms(1)
      by (simp add: valid_datetime_def days_in_month_def)
    have "toordinal t' = days_before_year (year t + 1) + 1"
      using t' by (simp add: toordinal_def ymd2ord_def days_before_month_1)
    moreover have "toordinal t = days_before_year (year t) + (if is_leap (year t) then 335 else 334) + 31"
      using c d by (simp add: toordinal_def ymd2ord_def days_before_month_12)
    ultimately show ?thesis using v days_before_year_step [of "year t"]
      by (simp split: if_splits)
  next
    case d
    then show ?thesis using assms(2) by (simp add: next_day_def)
  qed
qed


lemma prev_day_ordinal:
  assumes "valid_datetime t" and "prev_day t = Inr t'"
  shows "toordinal t' = toordinal t - 1 \<and> valid_datetime t'"
proof -
  consider (a) "1 < day t"
    | (b) "day t = 1" "1 < month t"
    | (c) "day t = 1" "month t = 1" "1 < year t"
    | (d) "day t = 1" "month t = 1" "year t = 1"
    using assms(1) unfolding valid_datetime_def by linarith
  then show ?thesis
  proof cases
    case a
    then have "t' = t\<lparr>day := day t - 1\<rparr>" using assms(2) by (simp add: prev_day_def)
    then show ?thesis using assms(1) a
      by (simp add: toordinal_def ymd2ord_def valid_datetime_def)
  next
    case b
    then have t': "t' = t\<lparr>month := month t - 1, day := days_in_month (year t) (month t - 1)\<rparr>"
      using assms(2) by (simp add: prev_day_def)
    have "1 \<le> month t - 1" using b by simp
    from days_before_month_step [OF this, of "year t"] t' b assms(1) show ?thesis
      by (simp add: toordinal_def ymd2ord_def valid_datetime_def days_in_month_pos)
  next
    case c
    then have t': "t' = t\<lparr>year := year t - 1, month := 12, day := 31\<rparr>"
      using assms(2) by (simp add: prev_day_def)
    have v: "valid_datetime t'" using t' c assms(1)
      by (simp add: valid_datetime_def days_in_month_def)
    have "toordinal t = days_before_year (year t - 1 + 1) + 1"
      using c by (simp add: toordinal_def ymd2ord_def days_before_month_1)
    moreover have "toordinal t' =
        days_before_year (year t - 1) + (if is_leap (year t - 1) then 335 else 334) + 31"
      using t' by (simp add: toordinal_def ymd2ord_def days_before_month_12)
    ultimately show ?thesis using v days_before_year_step [of "year t - 1"]
      by (simp split: if_splits)
  next
    case d
    then show ?thesis using assms(2) by (simp add: prev_day_def)
  qed
qed

lemma second_of_day_range:
  assumes "valid_datetime t"
  shows "0 \<le> second_of_day t" and "second_of_day t < 86400"
  using assms unfolding valid_datetime_def second_of_day_def by linarith+

lemma hms_recompose:
  fixes s :: int
  shows "s div 3600 * 3600 + s mod 3600 div 60 * 60 + s mod 60 = s"
proof -
  have "s mod 3600 div 60 * 60 + s mod 3600 mod 60 = s mod 3600" by simp
  moreover have "s mod 3600 mod 60 = s mod 60"
    by (rule mod_mod_cancel) simp
  moreover have "s div 3600 * 3600 + s mod 3600 = s" by simp
  ultimately show ?thesis by linarith
qed

lemma set_second_of_day_facts:
  assumes "0 \<le> s" and "s < 86400"
  shows "second_of_day (set_second_of_day t s) = s"
    and "toordinal (set_second_of_day t s) = toordinal t"
    and "microsecond (set_second_of_day t s) = microsecond t"
    and "valid_datetime t \<Longrightarrow> valid_datetime (set_second_of_day t s)"
proof -
  show "second_of_day (set_second_of_day t s) = s"
    using hms_recompose [of s] by (simp add: second_of_day_def set_second_of_day_def)
  show "toordinal (set_second_of_day t s) = toordinal t"
    by (simp add: toordinal_def set_second_of_day_def)
  show "microsecond (set_second_of_day t s) = microsecond t"
    by (simp add: set_second_of_day_def)
  have "s div 3600 < 24" using assms(2) by (simp add: div_less_iff_less_mult)
  moreover have "0 \<le> s div 3600" using assms(1) by simp
  moreover have "0 \<le> s mod 3600 div 60" by simp
  moreover have "s mod 3600 div 60 < 60" by (simp add: div_less_iff_less_mult)
  ultimately show "valid_datetime t \<Longrightarrow> valid_datetime (set_second_of_day t s)"
    by (simp add: valid_datetime_def set_second_of_day_def)
qed


lemma next_day_returns:
  assumes "valid_datetime t" and "year t < 9999"
  shows "\<exists>t'. next_day t = Inr t'
           \<and> (year t' < 9999 \<or> (month t' = 1 \<and> day t' = 1))
           \<and> (1 < day t' \<or> 1 < month t' \<or> 1 < year t')"
  using assms unfolding next_day_def valid_datetime_def by auto

lemma next_day_clock:
  assumes "next_day t = Inr t'"
  shows "hour t' = hour t \<and> minute t' = minute t \<and> second t' = second t
         \<and> microsecond t' = microsecond t"
  using assms by (auto simp: next_day_def split: if_splits)

lemma prev_day_clock:
  assumes "prev_day t = Inr t'"
  shows "hour t' = hour t \<and> minute t' = minute t \<and> second t' = second t
         \<and> microsecond t' = microsecond t"
  using assms by (auto simp: prev_day_def split: if_splits)

lemma astimezone_utc_instant:
  assumes "valid_datetime p" and "astimezone_utc tz p = Inr u"
  shows "epoch_seconds u = epoch_seconds p - tz p \<and> valid_datetime u
         \<and> microsecond u = microsecond p"
proof -
  define total where "total = second_of_day p - tz p"
  have off: "- 86400 < tz p" "tz p < 86400"
    using assms(2) by (auto simp: astimezone_utc_def Let_def split: if_splits)
  have sod: "0 \<le> second_of_day p" "second_of_day p < 86400"
    using second_of_day_range [OF assms(1)] by simp_all
  consider (before) "total < 0" | (after) "86400 \<le> total" | (same) "0 \<le> total" "total < 86400"
    by linarith
  then show ?thesis
  proof cases
    case before
    have m: "total mod 86400 = total + 86400"
      using before off sod
      by (intro int_mod_pos_eq [where q = "- 1"]) (simp_all add: total_def)
    from before off assms(2) obtain q where q: "prev_day p = Inr q"
        and u: "u = set_second_of_day q (total mod 86400)"
      by (auto simp: astimezone_utc_def Let_def total_def split: if_splits sum.splits)
    have r: "0 \<le> total + 86400" "total + 86400 < 86400"
      using before off sod by (simp_all add: total_def)
    from prev_day_ordinal [OF assms(1) q] prev_day_clock [OF q]
      set_second_of_day_facts [OF r, of q] u m
    show ?thesis
      by (simp add: epoch_seconds_def total_def)
  next
    case after
    have m: "total mod 86400 = total - 86400"
      using after off sod
      by (intro int_mod_pos_eq [where q = 1]) (simp_all add: total_def)
    from after off assms(2) obtain q where q: "next_day p = Inr q"
        and u: "u = set_second_of_day q (total mod 86400)"
      by (auto simp: astimezone_utc_def Let_def total_def split: if_splits sum.splits)
    have r: "0 \<le> total - 86400" "total - 86400 < 86400"
      using after off sod by (simp_all add: total_def)
    from next_day_ordinal [OF assms(1) q] next_day_clock [OF q]
      set_second_of_day_facts [OF r, of q] u m
    show ?thesis
      by (simp add: epoch_seconds_def total_def)
  next
    case same
    have m: "total mod 86400 = total" using same by simp
    from same off assms(2) have u: "u = set_second_of_day p (total mod 86400)"
      by (auto simp: astimezone_utc_def Let_def total_def split: if_splits)
    from set_second_of_day_facts [OF same, of p] u m assms(1)
    show ?thesis
      by (simp add: epoch_seconds_def total_def)
  qed
qed

section \<open>Facts about the example runs\<close>

lemma demo_env_fields:
  "locate (demo_env w i s) p = path_join w p"
  "script_dir (demo_env w i s) = lit ''/srv/app''"
  "unwritable (demo_env w i s) = {}"
  "post_email (demo_env w i s) r = Inr i"
  "get_analytics (demo_env w i s) u a =
     (if u = lit ''https://api.buttondown.com/v1/emails/e1/analytics'' then s else Inl HTTPError)"
  "now_in_zone (demo_env w i s) = demo_now"
  "now_naive (demo_env w i s) = demo_now"
  "random_quote (demo_env w i s) = 1"
  "random_product (demo_env w i s) = 0"
  "json_load_object (demo_env w i s) t =
     (if t = lit ''C'' then Inr [lit ''buttondown_api_key'' \<mapsto> lit ''k'']
      else Inl JSONDecodeError)"
  "json_load_pool (demo_env w i s) t =
     (if t = lit ''P''
      then Inr [[lit ''title'' \<mapsto> lit ''Lamp'', lit ''description'' \<mapsto> lit ''Warm'',
                 lit ''link'' \<mapsto> lit ''https://shop.example/item?ref=1'']]
      else Inl JSONDecodeError)"
  "zone_info (demo_env w i s) z =
     (if z = lit ''Europe/Paris'' then Some (\<lambda>t. 3600)
      else if z = lit ''UTC'' then Some (\<lambda>t. 0) else None)"
  by (simp_all add: demo_env_def)

lemma demo_paths:
  "resolve (demo_env (lit ''/srv/app'') i s) default_id_path = lit ''/srv/app/.last_email_id''"
  "resolve (demo_env (lit ''/home/u'') i s) default_id_path = lit ''/home/u/.last_email_id''"
  "resolve (demo_env w i s) (main_id_path (demo_env w i s)) = lit ''/srv/app/.last_email_id''"
  by (simp_all add: resolve_def main_id_path_def default_id_path_def demo_env_def path_join_def
      lit_def)

lemma demo_schedule_any:
  assumes "utf8_encodable (py_str_id i)"
  shows "schedule_email (demo_env w i s) f subject body
       \<lparr> year = 2024, month = 1, day = 11, hour = 8, minute = 0, second = 0, microsecond = 0 \<rparr>
       (\<lambda>t. 3600) config default_id_path
     = (Inr i, f(resolve (demo_env w i s) default_id_path \<mapsto> py_str_id i))"
  using assms
  by (simp add: schedule_email_def write_text_def astimezone_utc_def
      second_of_day_def set_second_of_day_def Let_def demo_env_def lit_def)

lemma demo_schedule:
  assumes "utf8_encodable (py_str_id i)"
  shows "schedule_email (demo_env w i s) f (p_subject demo_prepared) (p_body demo_prepared)
       (p_publish demo_prepared) (p_tz demo_prepared) (p_config demo_prepared) default_id_path
     = (Inr i, f(resolve (demo_env w i s) default_id_path \<mapsto> py_str_id i))"
  using demo_schedule_any [OF assms] by (simp add: demo_prepared_def)

lemma demo_ids_encodable:
  "utf8_encodable (py_str_id (Some (lit ''e2'')))"
  "utf8_encodable (py_str_id (Some (lit '' e1'')))"
  by (simp_all add: utf8_encodable_def py_str_id_def lit_def)

lemma demo_date: "strftime_dmy demo_now = lit ''10/01/2024''"
  by (simp add: strftime_dmy_def demo_now_def zero_pad_def str_int_def nat_digits.simps lit_def)

lemma demo_yesterday: "prev_day demo_now = Inr (demo_now\<lparr>day := 9\<rparr>)"
  by (simp add: prev_day_def demo_now_def)

lemma demo_ymd: "strftime_ymd (demo_now\<lparr>day := 9\<rparr>) = lit ''2024-01-09''"
  by (simp add: strftime_ymd_def demo_now_def zero_pad_def str_int_def nat_digits.simps lit_def)

lemma demo_row:
  "csv_row (report_row demo_stats (sparkle @ lit ''Bonjour'') (lit ''2024-01-09''))
     = lit ''2024-01-09,'' @ [10024] @ lit '' Bonjour,12,0,7,0,0,0,0,0'' @ [13, 10]"
  by (simp add: csv_row_def csv_field_def report_row_def counter_def demo_stats_def sparkle_def
      str_int_def nat_digits.simps lit_def)

lemma demo_header:
  "csv_row report_headers
     = lit ''Date,Subject,Recipients,Deliveries,Opens,Clicks,TemporaryFailures,PermanentFailures,Unsubscriptions,Complaints''
       @ [13, 10]"
  by (simp add: csv_row_def csv_field_def report_headers_def lit_def)

lemma demo_parse: "parse_send_time (lit ''08:00'') = Inr (8, 0)"
  using parse_send_time_hhmm [of 8 0] by (simp add: lit_def)

lemma demo_publish:
  "publish_dt_local demo_now (lit ''08:00'')
     = Inr \<lparr> year = 2024, month = 1, day = 11, hour = 8, minute = 0, second = 0,
             microsecond = 0 \<rparr>"
  by (simp add: demo_parse demo_now_def days_in_month_def publish_dt_local_def
      next_day_def dt_replace_def)

lemma demo_products_path:
  "products_path (demo_env w i s) = lit ''/srv/app/assets/data/products.json''"
  "quotes_path (demo_env w i s) = lit ''/srv/app/assets/data/quotes.json''"
  by (simp_all add: products_path_def quotes_path_def path_join_def demo_env_fields lit_def)

section \<open>Rendering: placeholders inside substituted values\<close>

text \<open>
  Claim C3. The eight substitutions run one after another on the whole text, so a value
  put in by an early substitution is scanned again by every later one, and a token
  brought in by a late value is never looked at by the substitution that has already
  run. In the run below the quote holds the date token and the product title holds the
  quote token: the date token inside the quote is replaced by the date, and the quote
  token inside the title reaches the rendered page unresolved.
\<close>

theorem nested_placeholder_evaluation:
  "generate_email_html (demo_env (lit ''/srv/app'') None (Inl HTTPError))
       [lit ''/srv/app/t.html'' \<mapsto> nested_template]
       (lit ''{{ subscriber.name }}'') nested_quote nested_product demo_config
       (lit ''/srv/app/t.html'')
     = Inr (lit ''<p>Le 10/01/2024</p><b>{{QUOTE}}</b>'')"
  by (simp add: generate_email_html_def nested_product_def nested_quote_def demo_env_def
      read_text_def resolve_def path_join_def dict_item_def image_url_of_def dict_get_def
      nested_template_def demo_date tip_value_def demo_config_def append_utm_def
      py_replace_def Let_def lit_def)

section \<open>Rendering: a product without an image\<close>

text \<open>
  Claim C9. When the product has no \<open>image\<close> field, or an empty one, the image
  address is the empty string: it is not joined to the site address, so it is never the
  site address followed by a bare slash, and the image token is replaced by nothing.
\<close>

theorem absent_image_renders_empty:
  assumes "product (lit ''image'') = None \<or> product (lit ''image'') = Some []"
      and "read_text e f template_path = Inr template"
      and "product (lit ''link'') = Some link"
      and "quote (lit ''text'') = Some quote_text"
      and "product (lit ''title'') = Some title"
      and "product (lit ''description'') = Some description"
  shows "image_url_of config product = []
       \<and> image_url_of config product \<noteq> site_url config @ lit ''/''
       \<and> generate_email_html e f recipient_name quote product config template_path =
           Inr (py_replace (py_replace (py_replace (py_replace
                 (py_replace (py_replace (py_replace (py_replace template
                    (lit ''{{NAME}}'') recipient_name)
                    (lit ''{{QUOTE}}'') quote_text)
                    (lit ''{{PRODUCT_TITLE}}'') title)
                    (lit ''{{PRODUCT_DESC}}'') description)
                    (lit ''{{PRODUCT_IMG}}'') [])
                    (lit ''{{PRODUCT_LINK}}'') (append_utm link config))
                    (lit ''{{TIP_LINK}}'') (tip_value config))
                    (lit ''{{DATE}}'') (strftime_dmy (now_naive e)))"
proof -
  have img: "image_url_of config product = []"
    using assms(1) by (auto simp: image_url_of_def dict_get_def)
  have "generate_email_html e f recipient_name quote product config template_path =
           Inr (py_replace (py_replace (py_replace (py_replace
                 (py_replace (py_replace (py_replace (py_replace template
                    (lit ''{{NAME}}'') recipient_name)
                    (lit ''{{QUOTE}}'') quote_text)
                    (lit ''{{PRODUCT_TITLE}}'') title)
                    (lit ''{{PRODUCT_DESC}}'') description)
                    (lit ''{{PRODUCT_IMG}}'') [])
                    (lit ''{{PRODUCT_LINK}}'') (append_utm link config))
                    (lit ''{{TIP_LINK}}'') (tip_value config))
                    (lit ''{{DATE}}'') (strftime_dmy (now_naive e)))"
    using assms(2-6) by (simp add: img generate_email_html_def dict_item_def Let_def)
  with img show ?thesis by (simp add: lit_slash)
qed

theorem absent_image_renders_empty_witness:
  "generate_email_html (demo_env (lit ''/srv/app'') None (Inl HTTPError))
       [lit ''/srv/app/t.html'' \<mapsto> image_template]
       (lit ''{{ subscriber.name }}'') (fallback_quotes ! 1) plain_product demo_config
       (lit ''/srv/app/t.html'')
     = Inr (lit ''<img src=>Lamp'')"
  using absent_image_renders_empty [of plain_product
      "demo_env (lit ''/srv/app'') None (Inl HTTPError)"
      "[lit ''/srv/app/t.html'' \<mapsto> image_template]" "lit ''/srv/app/t.html''"
      image_template "lit ''https://shop.example/item''" "fallback_quotes ! 1"
      "lit ''Chaque jour est une nouvelle chance de semer des graines de bonheur.''"
      "lit ''Lamp''" "lit ''Warm''" demo_config "lit ''{{ subscriber.name }}''"]
  by (simp add: plain_product_def demo_env_def read_text_def resolve_def path_join_def
      image_template_def fallback_quotes_def demo_date tip_value_def demo_config_def
      py_replace_def lit_def)

section \<open>The publish instant\<close>

lemma prev_day_returns:
  assumes "1 < day t \<or> 1 < month t \<or> 1 < year t"
  shows "\<exists>q. prev_day t = Inr q"
  using assms unfolding prev_day_def by auto

lemma next_day_possible:
  assumes "year t < 9999 \<or> month t < 12"
  shows "\<exists>q. next_day t = Inr q"
  using assms unfolding next_day_def by auto

lemma schedule_email_request:
  assumes "schedule_email e f subject body publish tz config path = (Inr email_id, f1)"
  shows "\<exists>utc. astimezone_utc tz publish = Inr utc
           \<and> post_email e
                \<lparr> authorization = lit ''Token '' @ buttondown_api_key config,
                  req_subject = subject, req_body = body,
                  req_status = lit ''scheduled'',
                  req_publish_date = isoformat_utc utc,
                  req_newsletter_id =
                    (case newsletter_id config of
                       None \<Rightarrow> None
                     | Some n \<Rightarrow> if n \<noteq> [] then Some n else None) \<rparr>
              = Inr email_id"
  using assms
  by (auto simp: schedule_email_def Let_def split: option.splits sum.splits prod.splits)

text \<open>
  Claim C8. For a current local time before the year 9999 and a send time \<open>HH:MM\<close>
  with \<open>HH\<close> below 24 and \<open>MM\<close> below 60, the publish time is the day after today
  on the calendar, at \<open>HH:MM:00\<close> and no microseconds. Its conversion to UTC, for a
  zone whose offset lies within a day as every zone's does, is the reading that many
  seconds earlier: both name the same instant. \<open>schedule_email\<close> submits the ISO text of
  that UTC reading (\<open>schedule_email_request\<close>).
\<close>

theorem publish_instant:
  fixes h m :: nat
  assumes "valid_datetime now" and "year now < 9999" and "h < 24" and "m < 60"
  shows "\<exists>p. publish_dt_local now
                [48 + h div 10, 48 + h mod 10, 58, 48 + m div 10, 48 + m mod 10] = Inr p
             \<and> toordinal p = toordinal now + 1
             \<and> hour p = int h \<and> minute p = int m \<and> second p = 0 \<and> microsecond p = 0
             \<and> valid_datetime p
             \<and> (- 86400 < tz p \<and> tz p < 86400 \<longrightarrow>
                  (\<exists>u. astimezone_utc tz p = Inr u
                       \<and> epoch_seconds u = epoch_seconds p - tz p
                       \<and> microsecond u = 0 \<and> valid_datetime u))"
proof -
  from next_day_returns [OF assms(1,2)] obtain t where
      t: "next_day now = Inr t"
      and hi: "year t < 9999 \<or> (month t = 1 \<and> day t = 1)"
      and lo: "1 < day t \<or> 1 < month t \<or> 1 < year t"
    by blast
  from next_day_ordinal [OF assms(1) t] have ord: "toordinal t = toordinal now + 1"
      and vt: "valid_datetime t" by simp_all
  define p where "p = t\<lparr>hour := int h, minute := int m, second := 0, microsecond := 0\<rparr>"
  have parse: "parse_send_time [48 + h div 10, 48 + h mod 10, 58, 48 + m div 10, 48 + m mod 10]
      = Inr (int h, int m)"
    using assms(3,4) by (intro parse_send_time_hhmm) simp_all
  have pub: "publish_dt_local now
      [48 + h div 10, 48 + h mod 10, 58, 48 + m div 10, 48 + m mod 10] = Inr p"
    unfolding publish_dt_local_def parse using t assms(3,4)
    by (simp add: dt_replace_def p_def)
  have vp: "valid_datetime p"
    using vt assms(3,4) by (simp add: valid_datetime_def p_def)
  have fields: "toordinal p = toordinal now + 1" "hour p = int h" "minute p = int m"
      "second p = 0" "microsecond p = 0"
    using ord by (simp_all add: p_def toordinal_def)
  have utc: "\<exists>u. astimezone_utc tz p = Inr u
      \<and> epoch_seconds u = epoch_seconds p - tz p \<and> microsecond u = 0 \<and> valid_datetime u"
    if off: "- 86400 < tz p \<and> tz p < 86400"
  proof -
    have "1 < day p \<or> 1 < month p \<or> 1 < year p" using lo by (simp add: p_def)
    then obtain q where q: "prev_day p = Inr q" using prev_day_returns by blast
    have "year p < 9999 \<or> month p < 12" using hi by (auto simp: p_def)
    then obtain n where n: "next_day p = Inr n" using next_day_possible by blast
    have "\<exists>u. astimezone_utc tz p = Inr u"
      using off by (simp add: astimezone_utc_def Let_def q n)
    then obtain u where u: "astimezone_utc tz p = Inr u" ..
    from astimezone_utc_instant [OF vp u] u fields(5) show ?thesis by simp
  qed
  from pub fields vp utc show ?thesis by blast
qed

theorem publish_instant_witness:
  "publish_dt_local demo_now (lit ''08:00'')
     = Inr \<lparr> year = 2024, month = 1, day = 11, hour = 8, minute = 0, second = 0,
             microsecond = 0 \<rparr>
   \<and> astimezone_utc (\<lambda>t. 3600)
        \<lparr> year = 2024, month = 1, day = 11, hour = 8, minute = 0, second = 0,
          microsecond = 0 \<rparr>
     = Inr \<lparr> year = 2024, month = 1, day = 11, hour = 7, minute = 0, second = 0,
             microsecond = 0 \<rparr>
   \<and> isoformat_utc \<lparr> year = 2024, month = 1, day = 11, hour = 7, minute = 0, second = 0,
                      microsecond = 0 \<rparr>
     = lit ''2024-01-11T07:00:00+00:00''"
proof -
  have v: "valid_datetime demo_now" "year demo_now < 9999"
    by (simp_all add: demo_now_def valid_datetime_def days_in_month_def)
  have u: "astimezone_utc (\<lambda>t. 3600)
        \<lparr> year = 2024, month = 1, day = 11, hour = 8, minute = 0, second = 0,
          microsecond = 0 \<rparr>
     = Inr \<lparr> year = 2024, month = 1, day = 11, hour = 7, minute = 0, second = 0,
             microsecond = 0 \<rparr>"
    by (simp add: astimezone_utc_def second_of_day_def set_second_of_day_def Let_def)
  have i: "isoformat_utc \<lparr> year = 2024, month = 1, day = 11, hour = 7, minute = 0, second = 0,
                      microsecond = 0 \<rparr>
     = lit ''2024-01-11T07:00:00+00:00''"
    by (simp add: isoformat_utc_def zero_pad_def str_int_def nat_digits.simps lit_def)
  from publish_instant [OF v, of 8 0 "\<lambda>t. 3600"] demo_publish u i
  show ?thesis by simp
qed

section \<open>The identifier file and the report\<close>

text \<open>What a call of \<open>schedule_email\<close> or of the reporting step leaves in the files.\<close>

lemma schedule_email_success:
  assumes "schedule_email e f subject body publish tz config path = (Inr email_id, f1)"
  shows "f1 = f(resolve e path \<mapsto> py_str_id email_id)"
  using assms
  by (auto simp: schedule_email_def write_text_def Let_def
      split: option.splits sum.splits if_splits prod.splits)

lemma header_encodable: "utf8_encodable (csv_row report_headers)"
  by (simp add: utf8_encodable_def csv_row_def csv_field_def report_headers_def lit_def)

lemma append_report_row_frame:
  assumes "append_report_row e f data config subject date_str = (r, f')"
      and "k \<noteq> resolve e (reports_csv config)"
  shows "f' k = f k"
  using assms
  by (auto simp: append_report_row_def open_append_def write_more_def Let_def
      split: sum.splits if_splits analytics_body.splits)

lemma report_previous_frame:
  assumes "report_previous e f config subject now_local email_id = (r, f2)"
      and "k \<noteq> resolve e (reports_csv config)"
  shows "f2 k = f k"
  using assms
  by (auto simp: report_previous_def Let_def split: sum.splits if_splits
      dest: append_report_row_frame)

lemma report_previous_distinct:
  assumes "f (resolve e (main_id_path e)) = Some prior"
      and "py_strip (universal_newlines prior) = last_id"
      and "last_id \<noteq> []" and "last_id \<noteq> py_str_id email_id"
      and "retrieve_analytics e last_id config = Inr (Counters counters)"
      and "prev_day now_local = Inr yesterday"
      and "resolve e (reports_csv config) \<notin> unwritable e"
      and "utf8_encodable (csv_row (report_row counters subject (strftime_ymd yesterday)))"
  shows "report_previous e f config subject now_local email_id =
           (Inr (), f(resolve e (reports_csv config) \<mapsto>
              (case f (resolve e (reports_csv config)) of
                 None \<Rightarrow> csv_row report_headers
               | Some old \<Rightarrow> old)
              @ csv_row (report_row counters subject (strftime_ymd yesterday))))"
  using assms header_encodable
  by (simp add: report_previous_def os_path_exists_def read_text_def Let_def
      append_report_row_def open_append_def write_more_def file_text_def
      split: option.splits)

text \<open>
  Claim C10, as amended. When \<open>schedule_email\<close> returns, the file at its identifier
  path holds exactly the text of the new identifier. When that path names the file
  \<open>main\<close> reads next, and reading the identifier's text back (line endings translated,
  surrounding whitespace stripped) gives the same text, the value read equals the
  current identifier, the guard fails, and the reporting step returns with the files as
  they are, whatever the analytics endpoint would have answered.
\<close>

theorem schedule_email_persists_first:
  assumes "schedule_email e f subject body publish tz config path = (Inr email_id, f1)"
  shows "f1 (resolve e path) = Some (py_str_id email_id)
       \<and> (resolve e path = resolve e (main_id_path e)
            \<and> py_strip (universal_newlines (py_str_id email_id)) = py_str_id email_id \<longrightarrow>
            (\<exists>text. read_text e f1 (main_id_path e) = Inr text
                    \<and> py_strip text = py_str_id email_id)
            \<and> report_previous e f1 config' subject' now_local email_id = (Inr (), f1))"
proof -
  have f1: "f1 = f(resolve e path \<mapsto> py_str_id email_id)"
    using assms by (rule schedule_email_success)
  then have here: "f1 (resolve e path) = Some (py_str_id email_id)" by simp
  have "report_previous e f1 config' subject' now_local email_id = (Inr (), f1)"
    and "\<exists>text. read_text e f1 (main_id_path e) = Inr text
           \<and> py_strip text = py_str_id email_id"
    if "resolve e path = resolve e (main_id_path e)"
      and "py_strip (universal_newlines (py_str_id email_id)) = py_str_id email_id"
    using that here
    by (simp_all add: report_previous_def os_path_exists_def read_text_def Let_def)
  with here show ?thesis by blast
qed

theorem schedule_email_persists_first_witness:
  "(demo_ids(lit ''/srv/app/.last_email_id'' \<mapsto> lit ''e2'')) (lit ''/srv/app/.last_email_id'')
     = Some (lit ''e2'')
   \<and> report_previous (demo_env (lit ''/srv/app'') (Some (lit ''e2'')) (Inr (Counters demo_stats)))
        (demo_ids(lit ''/srv/app/.last_email_id'' \<mapsto> lit ''e2''))
        demo_config (sparkle @ lit ''Bonjour'') demo_now (Some (lit ''e2''))
     = (Inr (), demo_ids(lit ''/srv/app/.last_email_id'' \<mapsto> lit ''e2''))"
proof -
  let ?e = "demo_env (lit ''/srv/app'') (Some (lit ''e2'')) (Inr (Counters demo_stats))"
  have a: "resolve ?e default_id_path = resolve ?e (main_id_path ?e)"
    by (simp add: demo_paths)
  have b: "py_strip (universal_newlines (py_str_id (Some (lit ''e2''))))
      = py_str_id (Some (lit ''e2''))"
    by (simp add: py_str_id_def py_strip_def py_isspace_def lit_def)
  from schedule_email_persists_first
    [OF demo_schedule [OF demo_ids_encodable(1), of "lit ''/srv/app''"
         "Inr (Counters demo_stats)" demo_ids],
     of demo_config "sparkle @ lit ''Bonjour''" demo_now] a b
  show ?thesis
    by (simp add: demo_paths py_str_id_def)
qed

text \<open>
  Without the proviso the claim fails: an identifier that starts with a space is
  written as it is and read back stripped, so the guard holds, the analytics of the
  stripped text are fetched and a row is appended.
\<close>

lemma demo_row_encodable:
  "utf8_encodable (csv_row (report_row demo_stats (sparkle @ lit ''Bonjour'') (lit ''2024-01-09'')))"
  unfolding demo_row by (simp add: utf8_encodable_def lit_def)

lemma padded_report:
  "report_previous (demo_env (lit ''/srv/app'') (Some (lit '' e1'')) (Inr (Counters demo_stats)))
        (demo_ids(lit ''/srv/app/.last_email_id'' \<mapsto> lit '' e1''))
        demo_config (sparkle @ lit ''Bonjour'') demo_now (Some (lit '' e1''))
     = (Inr (),
        demo_ids(lit ''/srv/app/.last_email_id'' \<mapsto> lit '' e1'',
                 lit ''/srv/app/report.csv'' \<mapsto>
                   csv_row report_headers
                   @ csv_row (report_row demo_stats (sparkle @ lit ''Bonjour'')
                                (lit ''2024-01-09''))))"
proof -
  let ?e = "demo_env (lit ''/srv/app'') (Some (lit '' e1'')) (Inr (Counters demo_stats))"
  let ?f = "demo_ids(lit ''/srv/app/.last_email_id'' \<mapsto> lit '' e1'')"
  have csv: "resolve ?e (reports_csv demo_config) = lit ''/srv/app/report.csv''"
    by (simp add: resolve_def path_join_def demo_env_fields demo_config_def lit_def)
  have 1: "?f (resolve ?e (main_id_path ?e)) = Some (lit '' e1'')"
    by (simp add: demo_paths)
  have 2: "py_strip (universal_newlines (lit '' e1'')) = lit ''e1''"
    by (simp add: py_strip_def py_isspace_def lit_def)
  have 3: "lit ''e1'' \<noteq> []" "lit ''e1'' \<noteq> py_str_id (Some (lit '' e1''))"
    by (simp_all add: py_str_id_def lit_def)
  have 4: "retrieve_analytics ?e (lit ''e1'') demo_config = Inr (Counters demo_stats)"
    by (simp add: retrieve_analytics_def demo_env_fields lit_def)
  have 5: "resolve ?e (reports_csv demo_config) \<notin> unwritable ?e"
    by (simp add: demo_env_fields)
  have 6: "?f (lit ''/srv/app/report.csv'') = None"
    by (simp add: demo_ids_def lit_def)
  have 7: "utf8_encodable (csv_row (report_row demo_stats (sparkle @ lit ''Bonjour'')
      (strftime_ymd (demo_now\<lparr>day := 9\<rparr>))))"
    by (simp only: demo_ymd demo_row_encodable)
  show ?thesis
    unfolding report_previous_distinct [where f = "?f" and e = "?e",
        OF 1 2 3 4 demo_yesterday 5 7] csv 6 demo_ymd
    by simp
qed

theorem padded_id_is_reported_counterexample:
  "schedule_email (demo_env (lit ''/srv/app'') (Some (lit '' e1'')) (Inr (Counters demo_stats))) demo_ids
       (p_subject demo_prepared) (p_body demo_prepared) (p_publish demo_prepared)
       (p_tz demo_prepared) (p_config demo_prepared) default_id_path
     = (Inr (Some (lit '' e1'')), demo_ids(lit ''/srv/app/.last_email_id'' \<mapsto> lit '' e1''))
   \<and> resolve (demo_env (lit ''/srv/app'') (Some (lit '' e1'')) (Inr (Counters demo_stats))) default_id_path
     = resolve (demo_env (lit ''/srv/app'') (Some (lit '' e1'')) (Inr (Counters demo_stats)))
         (main_id_path (demo_env (lit ''/srv/app'') (Some (lit '' e1'')) (Inr (Counters demo_stats))))
   \<and> report_previous (demo_env (lit ''/srv/app'') (Some (lit '' e1'')) (Inr (Counters demo_stats)))
        (demo_ids(lit ''/srv/app/.last_email_id'' \<mapsto> lit '' e1''))
        demo_config (sparkle @ lit ''Bonjour'') demo_now (Some (lit '' e1''))
     = (Inr (),
        demo_ids(lit ''/srv/app/.last_email_id'' \<mapsto> lit '' e1'',
                 lit ''/srv/app/report.csv'' \<mapsto>
                   lit ''Date,Subject,Recipients,Deliveries,Opens,Clicks,TemporaryFailures,PermanentFailures,Unsubscriptions,Complaints''
                   @ [13, 10] @ lit ''2024-01-09,'' @ [10024]
                   @ lit '' Bonjour,12,0,7,0,0,0,0,0'' @ [13, 10]))"
  unfolding demo_schedule [OF demo_ids_encodable(2)] demo_paths padded_report demo_row
    demo_header
  by (simp add: py_str_id_def)

section \<open>A run that fails after scheduling\<close>

text \<open>
  Run from \<open>/home/u\<close>, the provider assigns \<open>e2\<close> and answers the analytics request
  for \<open>e1\<close> with a JSON value that is no object. The report is new, so its header is
  written before \<open>data.get\<close> raises.
\<close>

lemma headless_report:
  "report_previous (demo_env (lit ''/home/u'') (Some (lit ''e2'')) (Inr NotAnObject))
       (demo_ids(lit ''/home/u/.last_email_id'' \<mapsto> lit ''e2''))
       (p_config demo_prepared) (p_subject demo_prepared) (p_now_local demo_prepared)
       (Some (lit ''e2''))
     = (Inl AttributeError,
        demo_ids(lit ''/home/u/.last_email_id'' \<mapsto> lit ''e2'',
                 lit ''/home/u/report.csv'' \<mapsto> csv_row report_headers))"
  using header_encodable
  by (simp add: report_previous_def retrieve_analytics_def read_text_def os_path_exists_def
      main_id_path_def py_str_id_def py_strip_def py_isspace_def Let_def demo_ids_def
      demo_env_fields demo_prepared_def demo_config_def demo_yesterday
      append_report_row_def open_append_def write_more_def file_text_def resolve_def
      path_join_def lit_def)

text \<open>
  Claim C1, as amended. When scheduling succeeds and the reporting step then raises
  (the analytics fetch or the appending to the report fails), the run ends with that
  error, before the final overwrite. By then \<open>schedule_email\<close> has written the new
  identifier to its own identifier file, \<open>.last_email_id\<close> in the working directory,
  and the file still holds it at the end unless it is the report itself. The identifier
  file \<open>main\<close> reads, beside the script, is left with its content of before the run
  provided it is a different file from that one and from the report.
\<close>

theorem failed_report_keeps_main_id:
  assumes "schedule_email e f (p_subject p) (p_body p) (p_publish p) (p_tz p) (p_config p)
             default_id_path = (Inr email_id, f1)"
      and "report_previous e f1 (p_config p) (p_subject p) (p_now_local p) email_id
             = (Inl err, f2)"
  shows "main_deliver e f p = (Inl err, f2)
       \<and> f1 (resolve e default_id_path) = Some (py_str_id email_id)
       \<and> (resolve e default_id_path \<noteq> resolve e (reports_csv (p_config p)) \<longrightarrow>
            f2 (resolve e default_id_path) = Some (py_str_id email_id))
       \<and> (resolve e (main_id_path e) \<noteq> resolve e default_id_path
            \<and> resolve e (main_id_path e) \<noteq> resolve e (reports_csv (p_config p)) \<longrightarrow>
            f2 (resolve e (main_id_path e)) = f (resolve e (main_id_path e)))"
proof -
  have f1: "f1 = f(resolve e default_id_path \<mapsto> py_str_id email_id)"
    using assms(1) by (rule schedule_email_success)
  have run: "main_deliver e f p = (Inl err, f2)"
    using assms by (simp add: main_deliver_def)
  have frame: "f2 k = f1 k" if "k \<noteq> resolve e (reports_csv (p_config p))" for k
    using assms(2) that by (rule report_previous_frame)
  from f1 have here: "f1 (resolve e default_id_path) = Some (py_str_id email_id)" by simp
  from f1 have there: "f1 k = f k" if "k \<noteq> resolve e default_id_path" for k
    using that by simp
  from run here frame there show ?thesis by simp
qed

theorem failed_report_keeps_main_id_witness:
  "main_deliver (demo_env (lit ''/home/u'') (Some (lit ''e2'')) (Inr NotAnObject)) demo_ids
       demo_prepared
     = (Inl AttributeError,
        demo_ids(lit ''/home/u/.last_email_id'' \<mapsto> lit ''e2'',
                 lit ''/home/u/report.csv'' \<mapsto>
                   lit ''Date,Subject,Recipients,Deliveries,Opens,Clicks,TemporaryFailures,PermanentFailures,Unsubscriptions,Complaints''
                   @ [13, 10]))
   \<and> (demo_ids(lit ''/home/u/.last_email_id'' \<mapsto> lit ''e2'',
                lit ''/home/u/report.csv'' \<mapsto> csv_row report_headers))
        (lit ''/srv/app/.last_email_id'') = Some (lit ''e1'')"
proof -
  let ?e = "demo_env (lit ''/home/u'') (Some (lit ''e2'')) (Inr NotAnObject)"
  have s: "schedule_email ?e demo_ids (p_subject demo_prepared) (p_body demo_prepared)
       (p_publish demo_prepared) (p_tz demo_prepared) (p_config demo_prepared) default_id_path
     = (Inr (Some (lit ''e2'')), demo_ids(lit ''/home/u/.last_email_id'' \<mapsto> lit ''e2''))"
    by (simp add: demo_schedule [OF demo_ids_encodable(1)] demo_paths py_str_id_def)
  from failed_report_keeps_main_id [OF s headless_report]
  show ?thesis
    by (simp add: demo_header demo_ids_def lit_def)
qed

text \<open>
  The claim as stated says the new identifier is never written before the run completes.
  Run from \<open>/home/u\<close> with the analytics endpoint failing: the run raises, and the
  identifier file in the working directory has gone from \<open>e1\<close> to \<open>e2\<close>.
\<close>

theorem split_run_fails_after_write_counterexample:
  "main_deliver (demo_env (lit ''/home/u'') (Some (lit ''e2'')) (Inl HTTPError)) demo_ids
       demo_prepared
     = (Inl HTTPError, demo_ids(lit ''/home/u/.last_email_id'' \<mapsto> lit ''e2''))
   \<and> demo_ids (lit ''/home/u/.last_email_id'') = Some (lit ''e1'')"
  unfolding main_deliver_def demo_schedule [OF demo_ids_encodable(1)] demo_paths
  by (simp add: report_previous_def retrieve_analytics_def read_text_def os_path_exists_def
      demo_paths py_str_id_def py_strip_def py_isspace_def Let_def demo_ids_def
      demo_env_fields demo_prepared_def demo_config_def lit_def)

section \<open>A complete run from the script's directory\<close>

lemma demo_site_prepare:
  "main_prepare (demo_env (lit ''/srv/app'') i s) demo_site
     = Inr \<lparr> p_config = demo_site_config, p_tz = (\<lambda>t. 3600), p_now_local = demo_now,
             p_publish = \<lparr> year = 2024, month = 1, day = 11, hour = 8, minute = 0,
                           second = 0, microsecond = 0 \<rparr>,
             p_body = lit ''<p>Chaque jour est une nouvelle chance de semer des graines de bonheur.</p>'',
             p_subject = [10024, 32] @ lit ''Chaque jour est une nouvelle chance de s'' @ [8230] \<rparr>"
proof -
  let ?e = "demo_env (lit ''/srv/app'') i s"
  have c: "Config_load ?e demo_site (path_join (script_dir ?e) (lit ''config.json''))
      = Inr demo_site_config"
    by (simp add: Config_load_def read_text_def resolve_def path_join_def demo_env_def
      demo_site_def Config_of_data_def dict_item_def dict_get_def demo_site_config_def lit_def)
  have z: "zone_info ?e (timezone demo_site_config) = Some (\<lambda>t. 3600)"
    by (simp add: demo_env_def demo_site_config_def)
  have pb: "publish_dt_local demo_now (send_time demo_site_config)
      = Inr \<lparr> year = 2024, month = 1, day = 11, hour = 8, minute = 0, second = 0,
              microsecond = 0 \<rparr>"
    by (simp add: demo_site_config_def demo_publish)
  have q: "quotes_data ?e demo_site = Inr fallback_quotes"
    by (simp add: quotes_data_def os_path_exists_def demo_products_path resolve_def
        path_join_def demo_env_fields demo_site_def lit_def)
  have pr: "load_json_data ?e demo_site (products_path ?e)
      = Inr [[lit ''title'' \<mapsto> lit ''Lamp'', lit ''description'' \<mapsto> lit ''Warm'',
              lit ''link'' \<mapsto> lit ''https://shop.example/item?ref=1'']]"
    by (simp add: load_json_data_def read_text_def demo_products_path resolve_def
        path_join_def re_match_http_def demo_env_fields demo_site_def lit_def)
  have cq: "choose_random_item (random_quote ?e) fallback_quotes
      = Inr [lit ''text'' \<mapsto> lit ''Chaque jour est une nouvelle chance de semer des graines de bonheur.'']"
    by (simp add: choose_random_item_def demo_env_fields fallback_quotes_def)
  have cp: "choose_random_item (random_product ?e)
        [[lit ''title'' \<mapsto> lit ''Lamp'', lit ''description'' \<mapsto> lit ''Warm'',
          lit ''link'' \<mapsto> lit ''https://shop.example/item?ref=1'']]
      = Inr [lit ''title'' \<mapsto> lit ''Lamp'', lit ''description'' \<mapsto> lit ''Warm'',
             lit ''link'' \<mapsto> lit ''https://shop.example/item?ref=1'']"
    by (simp add: choose_random_item_def demo_env_fields)
  have ex: "os_path_exists ?e demo_site (path_join (script_dir ?e) (lit ''email_template.html''))"
    by (simp add: os_path_exists_def resolve_def path_join_def demo_env_fields demo_site_def
        lit_def)
  have g: "generate_email_html ?e demo_site (lit ''{{ subscriber.name }}'')
        [lit ''text'' \<mapsto> lit ''Chaque jour est une nouvelle chance de semer des graines de bonheur.'']
        [lit ''title'' \<mapsto> lit ''Lamp'', lit ''description'' \<mapsto> lit ''Warm'',
         lit ''link'' \<mapsto> lit ''https://shop.example/item?ref=1'']
        demo_site_config (path_join (script_dir ?e) (lit ''email_template.html''))
      = Inr (lit ''<p>Chaque jour est une nouvelle chance de semer des graines de bonheur.</p>'')"
    by (simp add: generate_email_html_def read_text_def resolve_def path_join_def
        demo_env_fields demo_site_def dict_item_def fallback_quotes_def py_replace_def
        Let_def lit_def)
  have sj: "make_subject [lit ''text'' \<mapsto> lit ''Chaque jour est une nouvelle chance de semer des graines de bonheur.'']
      = Inr ([10024, 32] @ lit ''Chaque jour est une nouvelle chance de s'' @ [8230])"
    by (simp add: make_subject_def dict_item_def fallback_quotes_def sparkle_def ellipsis_def
        lit_def)
  show ?thesis
    by (simp add: main_prepare_def c z pb q pr cq cp ex g sj Let_def demo_env_fields(6))
qed

text \<open>
  Claim C2. The script is run from its own directory. The identifier file holds \<open>e1\<close>,
  left by the run before; the provider assigns \<open>e2\<close> and would answer the analytics
  request for \<open>e1\<close>. The run completes, the identifier file holds \<open>e2\<close>, and no
  report file exists afterwards: \<open>schedule_email\<close> has replaced \<open>e1\<close> before \<open>main\<close>
  reads the file, so no analytics are fetched and no row is written. When the two
  identifier files differ the row is written (\<open>report_previous_distinct\<close>).
\<close>

theorem aliased_main_skips_report:
  "main (demo_env (lit ''/srv/app'') (Some (lit ''e2'')) (Inr (Counters demo_stats))) demo_site
     = (Inr (), demo_site(lit ''/srv/app/.last_email_id'' \<mapsto> lit ''e2''))
   \<and> demo_site (lit ''/srv/app/.last_email_id'') = Some (lit ''e1'')
   \<and> retrieve_analytics (demo_env (lit ''/srv/app'') (Some (lit ''e2'')) (Inr (Counters demo_stats)))
        (lit ''e1'') demo_site_config = Inr (Counters demo_stats)"
proof -
  let ?e = "demo_env (lit ''/srv/app'') (Some (lit ''e2'')) (Inr (Counters demo_stats))"
  let ?f = "demo_site(lit ''/srv/app/.last_email_id'' \<mapsto> lit ''e2'')"
  have r: "report_previous ?e ?f config subject now_local (Some (lit ''e2'')) = (Inr (), ?f)"
    for config subject now_local
    by (simp add: report_previous_def os_path_exists_def read_text_def demo_paths
        py_str_id_def py_strip_def py_isspace_def Let_def lit_def)
  have w: "write_text ?e ?f (main_id_path ?e) (lit ''e2'') = (Inr (), ?f)"
    by (simp add: write_text_def demo_paths demo_env_fields utf8_encodable_def lit_def)
  have m: "main ?e demo_site = (Inr (), ?f)"
    by (simp add: main_def demo_site_prepare main_deliver_def
        demo_schedule_any [OF demo_ids_encodable(1)] demo_paths py_str_id_def r w)
  have a: "retrieve_analytics ?e (lit ''e1'') demo_site_config = Inr (Counters demo_stats)"
    by (simp add: retrieve_analytics_def demo_env_fields lit_def)
  have o: "demo_site (lit ''/srv/app/.last_email_id'') = Some (lit ''e1'')"
    by (simp add: demo_site_def lit_def)
  from m a o show ?thesis by simp
qed

section \<open>The content pools\<close>




end
